theory Spec2Isabelle
  imports Complex_Main
begin

section \<open>Search result columns: \<^verbatim>\<open>public/app/features/search/page/components/columns.tsx\<close>\<close>

text \<open>
  The module plans the columns of the search results grid. \<^verbatim>\<open>generateColumns\<close> is a
  sequential budget allocator over \<^verbatim>\<open>availableWidth\<close>; every column carries a cell
  formatter. The embedding keeps the functions of the source and their names.

  Conventions of the embedding:
  \<^item> a JavaScript \<^verbatim>\<open>number\<close> is a double: a \<^typ>\<open>real\<close>, with every subtraction and
    multiplication rounded to the nearest double (\<open>fsub\<close>, \<open>fmul\<close>);
  \<^item> \<^verbatim>\<open>obj[key]\<close> on a plain object finds the own property and, failing that, the member
    every object inherits (\<open>get_property\<close>);
  \<^item> a value that may be \<^verbatim>\<open>undefined\<close> or \<^verbatim>\<open>null\<close> is an \<^typ>\<open>'a option\<close>; the source never
    tells the two apart (\<^verbatim>\<open>!= null\<close>, \<^verbatim>\<open>??\<close>, \<^verbatim>\<open>?.\<close> and truthiness tests only);
  \<^item> reading a property of \<^verbatim>\<open>undefined\<close> raises \<^verbatim>\<open>TypeError\<close>: a formatter returns
    \<^verbatim>\<open>error + 'a\<close>, \<open>Inl\<close> being the exception;
  \<^item> a React element is a value of the datatype \<open>node\<close>; an event handler is the list of
    the effects it performs, in program order;
  \<^item> the globals \<^verbatim>\<open>config.panels\<close> and \<^verbatim>\<open>getDataSourceSrv()\<close> are passed as arguments;
  \<^item> the closures that \<^verbatim>\<open>generateColumns\<close> and the \<^verbatim>\<open>make...Column\<close> functions write inline
    (\<^verbatim>\<open>Cell\<close>, \<^verbatim>\<open>accessor\<close>) are definitions of their own, taking what they capture as
    arguments; the property \<^verbatim>\<open>id\<close> of a column is \<open>col_id\<close>, \<^verbatim>\<open>view.fields\<close> is
    \<open>view_fields\<close>, and a parameter \<^verbatim>\<open>width\<close> is \<open>colWidth\<close>.
\<close>

subsection \<open>Host language values\<close>

datatype error = TypeError

text \<open>A \<^verbatim>\<open>Field<T>\<close> is read through \<^verbatim>\<open>field.values.get(i)\<close> only: it is its vector of values.\<close>

type_synonym 'a Field = "'a option list"

definition values_get :: "'a Field \<Rightarrow> nat \<Rightarrow> 'a option" where
  "values_get f i = (if i < length f then f ! i else None)"

subsection \<open>Doubles\<close>

text \<open>
  A finite double is the real number it denotes. The result of an operation is the exact
  result rounded to 53 significant bits, to nearest and ties to even: \<open>expo x\<close> is the
  binary exponent of \<open>x\<close>, \<open>rne\<close> rounds to the nearest integer, ties to even, and \<open>fl\<close>
  rounds a real to the nearest double. The exponent is not bounded. For the operations of
  this module on finite doubles that changes nothing: the subtractions cannot overflow,
  a difference in the subnormal range is exact in both readings, and the one product,
  when that small, is below the floor of 300 that \<^verbatim>\<open>Math.max\<close> puts under it. \<^verbatim>\<open>NaN\<close> and the
  infinities are not modelled.
\<close>

function expo_up :: "real \<Rightarrow> nat" where
  "expo_up x = (if x < 2 then 0 else Suc (expo_up (x / 2)))"
  by pat_completeness auto
termination
  by (relation "measure (\<lambda>x. nat \<lfloor>x\<rfloor>)") (auto, linarith)

function expo_down :: "real \<Rightarrow> nat" where
  "expo_down x = (if x \<le> 0 \<or> 1 \<le> x then 0 else Suc (expo_down (2 * x)))"
  by pat_completeness auto
termination
proof (relation "measure (\<lambda>x. nat \<lceil>1 / x\<rceil>)")
  show "wf (measure (\<lambda>x. nat \<lceil>1 / x\<rceil>))" by simp
next
  fix x :: real
  assume "\<not> (x \<le> 0 \<or> 1 \<le> x)"
  then have x: "0 < x" "x < 1" by auto
  define y where "y = 1 / x"
  from x have y: "1 < y" by (simp add: y_def)
  have a: "y \<le> of_int \<lceil>y\<rceil>" by (rule le_of_int_ceiling)
  from y have "1 < \<lceil>y\<rceil>" by (simp add: less_ceiling_iff)
  then have b: "(2 :: real) \<le> of_int \<lceil>y\<rceil>" by linarith
  from a b y have "y / 2 \<le> of_int \<lceil>y\<rceil> - 1" by linarith
  then have "\<lceil>y / 2\<rceil> < \<lceil>y\<rceil>" by (simp add: ceiling_less_iff)
  then have "\<lceil>1 / (2 * x)\<rceil> < \<lceil>1 / x\<rceil>" by (simp add: y_def mult.commute)
  moreover have "0 < \<lceil>1 / x\<rceil>" using x by simp
  ultimately show "(2 * x, x) \<in> measure (\<lambda>x. nat \<lceil>1 / x\<rceil>)" by simp
qed

declare expo_up.simps [simp del] expo_down.simps [simp del]

definition pow2 :: "int \<Rightarrow> real" where
  "pow2 e = (if 0 \<le> e then 2 ^ nat e else 1 / 2 ^ nat (- e))"

definition expo :: "real \<Rightarrow> int" where
  "expo x = (if 1 \<le> \<bar>x\<bar> then int (expo_up \<bar>x\<bar>) else - int (expo_down \<bar>x\<bar>))"

definition rne :: "real \<Rightarrow> int" where
  "rne y = (let f = \<lfloor>y\<rfloor>; r = y - of_int f
            in if r < 1 / 2 then f
               else if 1 / 2 < r then f + 1
               else if even f then f else f + 1)"

definition fl :: "real \<Rightarrow> real" where
  "fl x = (if x = 0 then 0
           else (let q = pow2 (expo x - 52) in of_int (rne (x / q)) * q))"

text \<open>\<^verbatim>\<open>a - b\<close> and \<^verbatim>\<open>a * b\<close> on doubles.\<close>

definition fsub :: "real \<Rightarrow> real \<Rightarrow> real" where
  "fsub a b = fl (a - b)"

definition fmul :: "real \<Rightarrow> real \<Rightarrow> real" where
  "fmul a b = fl (a * b)"

text \<open>Truthiness of a string, and of a string that may be undefined.\<close>

definition truthy :: "string \<Rightarrow> bool" where
  "truthy s = (s \<noteq> [])"

definition truthy_opt :: "string option \<Rightarrow> bool" where
  "truthy_opt v = (case v of None \<Rightarrow> False | Some s \<Rightarrow> truthy s)"

text \<open>\<^verbatim>\<open>v.endsWith(s)\<close>\<close>

definition endsWith :: "string \<Rightarrow> string \<Rightarrow> bool" where
  "endsWith v s = (length s \<le> length v \<and> drop (length v - length s) v = s)"

text \<open>\<^verbatim>\<open>s.split(c)\<close> for a separator of one character.\<close>

fun str_split :: "char \<Rightarrow> string \<Rightarrow> string list" where
  "str_split c [] = [[]]"
| "str_split c (x # xs) =
     (if x = c then [] # str_split c xs
      else (case str_split c xs of
              [] \<Rightarrow> [[x]]
            | seg # segs \<Rightarrow> (x # seg) # segs))"

text \<open>\<^verbatim>\<open>segs.join(c)\<close>, the inverse of \<^verbatim>\<open>split\<close>; used to state what \<^verbatim>\<open>split\<close> returns.\<close>

fun str_join :: "char \<Rightarrow> string list \<Rightarrow> string" where
  "str_join c [] = []"
| "str_join c [seg] = seg"
| "str_join c (seg # segs) = seg @ c # str_join c segs"

text \<open>\<^verbatim>\<open>cx(...)\<close> keeps the truthy class names, in order.\<close>

definition cx :: "string list \<Rightarrow> string list" where
  "cx names = filter truthy names"

text \<open>\<^verbatim>\<open>css`...`\<close> turns a block of rules into a class name.\<close>

definition css :: "string \<Rightarrow> string" where
  "css rules = ''css{'' @ rules @ ''}''"

subsection \<open>The data model\<close>

text \<open>
  \<^verbatim>\<open>response.view.fields\<close>. The declared type has every accessor; the source tests
  \<^verbatim>\<open>kind\<close>, \<^verbatim>\<open>ds_uid\<close> and \<^verbatim>\<open>location\<close> for presence, so at run time an accessor may be
  undefined and each one is optional here.
\<close>

record QueryFields =
  uid :: "string Field option"
  kind :: "string Field option"
  name :: "string Field option"
  panel_type :: "string Field option"
  ds_uid :: "string list Field option"
  location :: "string Field option"
  tags :: "string list Field option"
  url :: "string Field option"

record LocationInfo =
  info_kind :: string
  info_name :: string
  info_url :: string

record SearchResultMeta =
  locationInfo :: "(string \<rightharpoonup> LocationInfo) option"

record QueryResultMeta =
  custom :: "SearchResultMeta option"

record DataFrame =
  meta :: "QueryResultMeta option"

record DataFrameView =
  dataFrame :: DataFrame
  view_fields :: QueryFields

record QueryResponse =
  view :: DataFrameView

text \<open>Plugin metadata, as read by \<^verbatim>\<open>info.info?.logos.small\<close> and \<^verbatim>\<open>settings?.meta?.info?.logos?.small\<close>.\<close>

record Logos =
  small :: "string option"

record PluginMetaInfo =
  logos :: "Logos option"

record PluginMeta =
  plugin_name :: "string option"
  plugin_info :: "PluginMetaInfo option"

record DataSourceInstanceSettings =
  settings_uid :: string
  settings_type :: string
  settings_name :: string
  settings_meta :: "PluginMeta option"

text \<open>
  \<^verbatim>\<open>config.panels\<close> and \<^verbatim>\<open>locationInfo\<close> are plain objects. \<^verbatim>\<open>obj[key]\<close> is the own property
  when there is one; otherwise it is what \<^verbatim>\<open>Object.prototype\<close> has under that key: one of
  its methods, a function whose \<^verbatim>\<open>name\<close> is a string, or for \<^verbatim>\<open>__proto__\<close> the prototype
  itself, which has no \<^verbatim>\<open>name\<close>. \<open>Inherited\<close> carries that \<^verbatim>\<open>name\<close>; an inherited member is
  truthy and has no other property that the module reads.
\<close>

datatype 'v property = Own 'v | Inherited "string option"

definition object_prototype :: "string \<Rightarrow> string option option" where
  "object_prototype key =
     (if key = ''constructor'' then Some (Some ''Object'')
      else if key \<in> set [''hasOwnProperty'', ''isPrototypeOf'', ''propertyIsEnumerable'',
                          ''toLocaleString'', ''toString'', ''valueOf'', ''__defineGetter__'',
                          ''__defineSetter__'', ''__lookupGetter__'', ''__lookupSetter__'']
      then Some (Some key)
      else if key = ''__proto__'' then Some None
      else None)"

definition get_property :: "(string \<rightharpoonup> 'v) \<Rightarrow> string \<Rightarrow> 'v property option" where
  "get_property obj key =
     (case obj key of
        Some v \<Rightarrow> Some (Own v)
      | None \<Rightarrow> map_option Inherited (object_prototype key))"

text \<open>What the module reads of \<^verbatim>\<open>@grafana/runtime\<close>.\<close>

record Runtime =
  config_panels :: "string \<rightharpoonup> PluginMeta"
  getInstanceSettings :: "string \<Rightarrow> DataSourceInstanceSettings option"

text \<open>The style classes: \<^verbatim>\<open>{ [key: string]: string }\<close>.\<close>

type_synonym Styles = "string \<Rightarrow> string"

subsection \<open>Render directives\<close>

text \<open>
  The effects of an event handler on its event \<^verbatim>\<open>e\<close> and on the caller: \<open>Call a\<close> is the
  invocation of a caller-supplied callback, \<open>a\<close> being what the callback returns for its
  arguments.
\<close>

datatype 'a effect = StopPropagation | PreventDefault | Alert string | Call 'a

type_synonym 'a handler = "'a effect list"

type_synonym props = "(string \<times> string) list"

datatype key = KeyString string | KeyIndex nat

datatype 'a node =
    Null
  | Text "string option"
  | Div (div_props: props) (div_className: "string list") (div_children: "'a node list")
  | Anchor (a_key: "key option") (a_props: props) (a_href: "string option")
      (a_className: "string list") (a_children: "'a node list")
  | Span (span_key: "key option") (span_className: "string list")
      (span_onClick: "'a handler option") (span_children: "'a node list")
  | Checkbox (cb_disabled: "bool option") (cb_value: "bool option") (cb_onChange: "'a handler")
  | Icon (icon_name: string)
  | Img (img_src: string) (img_width: nat) (img_height: nat) (img_title: string)
      (img_className: string)
  | SVG (svg_src: string) (svg_width: nat) (svg_height: nat) (svg_title: string)
      (svg_className: string)
  | TagList (tl_className: string) (tl_tags: "string list") (tl_onClick: "string \<Rightarrow> 'a")

text \<open>The argument \<^verbatim>\<open>p\<close> the grid hands to a cell formatter.\<close>

record CellProps =
  row_index :: nat
  cellProps :: props
  cellStyle :: string
  userProps_href :: "string option"

datatype 'a header = HeaderText string | HeaderFn "'a node"

datatype 'a cell = DefaultCell | CellFn "CellProps \<Rightarrow> error + 'a node"

datatype FieldRef = StringField "string Field" | ListField "string list Field"

record 'a TableColumn =
  col_id :: string
  width :: real
  Header :: "'a header"
  Cell :: "'a cell"
  field :: "FieldRef option"
  accessor :: "(nat \<Rightarrow> error + 'a node) option"

subsection \<open>The columns\<close>

definition TYPE_COLUMN_WIDTH :: real where "TYPE_COLUMN_WIDTH = 250"
definition DATASOURCE_COLUMN_WIDTH :: real where "DATASOURCE_COLUMN_WIDTH = 200"
definition LOCATION_COLUMN_WIDTH :: real where "LOCATION_COLUMN_WIDTH = 200"
definition TAGS_COLUMN_WIDTH :: real where "TAGS_COLUMN_WIDTH = 300"

text \<open>\<^verbatim>\<open>getIconForKind\<close>; the argument is undefined when it is read off an inherited member.\<close>

definition getIconForKind :: "string option \<Rightarrow> string" where
  "getIconForKind v =
     (if v = Some ''dashboard'' then ''apps''
      else if v = Some ''folder'' then ''folder''
      else ''question-circle'')"

text \<open>
  \<^verbatim>\<open>makeDataSourceColumn\<close>. \<^verbatim>\<open>settings?.meta?.info?.logos?.small\<close> is a chain of
  \<^const>\<open>Option.bind\<close>; the \<^verbatim>\<open>Cell\<close> closure renders one chip or one invalid item per
  identifier of the row.
\<close>

definition settings_small_logo :: "DataSourceInstanceSettings option \<Rightarrow> string option" where
  "settings_small_logo settings =
     Option.bind (Option.bind (Option.bind (Option.bind settings settings_meta) plugin_info)
       logos) small"

definition dataSourceItem ::
  "Runtime \<Rightarrow> string \<Rightarrow> string \<Rightarrow> (string option \<Rightarrow> 'a) \<Rightarrow> nat \<times> string \<Rightarrow> 'a node" where
  "dataSourceItem rt iconClass invalidDatasourceItemClass onDatasourceChange iv =
     (let i = fst iv; v = snd iv;
          settings = getInstanceSettings rt v;
          icon = settings_small_logo settings
      in case (settings, icon) of
           (Some s, Some ic) \<Rightarrow>
             (if truthy ic then
                Span (Some (KeyIndex i)) []
                  (Some [StopPropagation, PreventDefault,
                         Call (onDatasourceChange (Some (settings_uid s)))])
                  [Img ic 14 14 (settings_type s) iconClass, Text (Some (settings_name s))]
              else Span (Some (KeyIndex i)) [invalidDatasourceItemClass] None [Text (Some v)])
         | _ \<Rightarrow> Span (Some (KeyIndex i)) [invalidDatasourceItemClass] None [Text (Some v)])"

definition dataSourceCell ::
  "Runtime \<Rightarrow> string list Field \<Rightarrow> string \<Rightarrow> string \<Rightarrow> string \<Rightarrow>
   (string option \<Rightarrow> 'a) \<Rightarrow> CellProps \<Rightarrow> error + 'a node" where
  "dataSourceCell rt fld iconClass datasourceItemClass invalidDatasourceItemClass
     onDatasourceChange p =
     (case values_get fld (row_index p) of
        None \<Rightarrow> Inr Null
      | Some dslist \<Rightarrow>
          if length dslist = 0 then Inr Null
          else Inr (Div (cellProps p) (cx [cellStyle p, datasourceItemClass])
                 (map (dataSourceItem rt iconClass invalidDatasourceItemClass onDatasourceChange)
                    (enumerate 0 dslist))))"

definition makeDataSourceColumn ::
  "Runtime \<Rightarrow> string list Field \<Rightarrow> real \<Rightarrow> string \<Rightarrow> string \<Rightarrow> string \<Rightarrow>
   (string option \<Rightarrow> 'a) \<Rightarrow> 'a TableColumn" where
  "makeDataSourceColumn rt fld colWidth iconClass datasourceItemClass
     invalidDatasourceItemClass onDatasourceChange =
     \<lparr> col_id = ''column-datasource'',
       width = colWidth,
       Header = HeaderText ''Data source'',
       Cell = CellFn (dataSourceCell rt fld iconClass datasourceItemClass
                 invalidDatasourceItemClass onDatasourceChange),
       field = Some (ListField fld),
       accessor = None \<rparr>"

text \<open>
  \<^verbatim>\<open>makeTypeColumn\<close>. Its \<^verbatim>\<open>accessor\<close> settles \<^verbatim>\<open>icon\<close> and \<^verbatim>\<open>txt\<close> and returns the element
  \<open>typeNode\<close> built from them.
\<close>

definition typeNode :: "Styles \<Rightarrow> string \<Rightarrow> string \<Rightarrow> 'a node" where
  "typeNode styles icon txt =
     Div [] [styles ''typeText''] [SVG icon 14 14 txt (styles ''typeIcon''), Text (Some txt)]"

text \<open>
  \<^verbatim>\<open>kindField?.values.get(i)\<close>, and what the accessor reads of \<^verbatim>\<open>info = config.panels[txt]\<close>:
  \<^verbatim>\<open>info?.name\<close> and \<^verbatim>\<open>info.info?.logos.small\<close>. An inherited member has a \<^verbatim>\<open>name\<close> when it is
  a function, and no \<^verbatim>\<open>info\<close>.
\<close>

definition rowKind :: "string Field option \<Rightarrow> nat \<Rightarrow> string option" where
  "rowKind kindField i = Option.bind kindField (\<lambda>kf. values_get kf i)"

definition panelName :: "PluginMeta property option \<Rightarrow> string option" where
  "panelName info =
     (case info of
        None \<Rightarrow> None
      | Some (Own entry) \<Rightarrow> plugin_name entry
      | Some (Inherited nm) \<Rightarrow> nm)"

definition panelLogo :: "PluginMeta property \<Rightarrow> error + string option" where
  "panelLogo info =
     (case info of
        Inherited nm \<Rightarrow> Inr None
      | Own entry \<Rightarrow>
          (case plugin_info entry of
             None \<Rightarrow> Inr None
           | Some pinfo \<Rightarrow>
               (case logos pinfo of None \<Rightarrow> Inl TypeError | Some l \<Rightarrow> Inr (small l))))"

definition typeAccessor ::
  "Runtime \<Rightarrow> string Field option \<Rightarrow> string Field option \<Rightarrow> Styles \<Rightarrow> nat \<Rightarrow>
   error + 'a node" where
  "typeAccessor rt kindField typeField styles i =
     (let kind = (case rowKind kindField i of None \<Rightarrow> ''dashboard'' | Some k \<Rightarrow> k);
          icon = ''public/img/icons/unicons/apps.svg'';
          txt = ''Dashboard'';
          render = (\<lambda>icon txt. Inr (typeNode styles icon txt))
      in if truthy kind then
           (let txt = kind in
            if txt = ''dashboard'' then render icon ''Dashboard''
            else if txt = ''folder'' then
              render ''public/img/icons/unicons/folder.svg'' ''Folder''
            else if txt = ''panel'' then
              (let icon = ''public/img/icons/unicons/graph-bar.svg'' in
               case typeField of
                 None \<Rightarrow> Inl TypeError
               | Some tf \<Rightarrow>
                   (let type = values_get tf i in
                    if truthy_opt type then
                      (let txt = the type;
                           info = get_property (config_panels rt) txt
                       in if truthy_opt (panelName info) then
                            (case panelLogo (the info) of
                               Inl e \<Rightarrow> Inl e
                             | Inr v \<Rightarrow>
                                 (let icon = (if truthy_opt v \<and> endsWith (the v) ''.svg''
                                              then the v else icon);
                                      txt = the (panelName info)
                                  in render icon txt))
                          else render icon txt)
                    else render icon txt))
            else render icon txt)
         else render icon txt)"

definition makeTypeColumn ::
  "Runtime \<Rightarrow> string Field option \<Rightarrow> string Field option \<Rightarrow> real \<Rightarrow> Styles \<Rightarrow>
   'a TableColumn" where
  "makeTypeColumn rt kindField typeField colWidth styles =
     \<lparr> col_id = ''column-type'',
       width = colWidth,
       Header = HeaderText ''Type'',
       Cell = DefaultCell,
       field = (case kindField of
                  Some kf \<Rightarrow> Some (StringField kf)
                | None \<Rightarrow> map_option StringField typeField),
       accessor = Some (typeAccessor rt kindField typeField styles) \<rparr>"

text \<open>\<^verbatim>\<open>makeTagsColumn\<close> and its \<^verbatim>\<open>Cell\<close> closure.\<close>

definition tagsCell ::
  "string list Field option \<Rightarrow> string \<Rightarrow> (string \<Rightarrow> 'a) \<Rightarrow> CellProps \<Rightarrow> error + 'a node" where
  "tagsCell fld tagListClass onTagSelected p =
     (case fld of
        None \<Rightarrow> Inl TypeError
      | Some f \<Rightarrow>
          (case values_get f (row_index p) of
             Some tgs \<Rightarrow>
               Inr (Div (cellProps p) [cellStyle p] [TagList tagListClass tgs onTagSelected])
           | None \<Rightarrow> Inr Null))"

definition makeTagsColumn ::
  "string list Field option \<Rightarrow> real \<Rightarrow> string \<Rightarrow> (string \<Rightarrow> 'a) \<Rightarrow> 'a TableColumn" where
  "makeTagsColumn fld colWidth tagListClass onTagSelected =
     \<lparr> col_id = ''column-tags'',
       width = colWidth,
       Header = HeaderText ''Tags'',
       Cell = CellFn (tagsCell fld tagListClass onTagSelected),
       field = map_option ListField fld,
       accessor = None \<rparr>"

text \<open>The \<^verbatim>\<open>Cell\<close> of the selection column (a closure of \<^verbatim>\<open>generateColumns\<close>).\<close>

definition checkboxCell ::
  "string Field option \<Rightarrow> string Field option \<Rightarrow> (string option \<Rightarrow> string option \<Rightarrow> bool) \<Rightarrow>
   (string option \<Rightarrow> string option \<Rightarrow> 'a) \<Rightarrow> Styles \<Rightarrow> CellProps \<Rightarrow> error + 'a node" where
  "checkboxCell uidField kindField selection selectionToggle styles p =
     (case uidField of
        None \<Rightarrow> Inl TypeError
      | Some uf \<Rightarrow>
          (let uid = values_get uf (row_index p);
               kind = (case kindField of
                         Some kf \<Rightarrow> values_get kf (row_index p)
                       | None \<Rightarrow> Some ''dashboard'');
               selected = selection kind uid;
               hasUID = (uid \<noteq> None)
           in Inr (Div (cellProps p) [cellStyle p]
                [Div [] [styles ''checkbox'']
                   [Checkbox (Some (\<not> hasUID)) (Some (selected \<and> hasUID))
                      [Call (selectionToggle kind uid)]]])))"

text \<open>The \<^verbatim>\<open>Cell\<close> of the name column.\<close>

definition nameCell :: "QueryFields \<Rightarrow> Styles \<Rightarrow> CellProps \<Rightarrow> error + 'a node" where
  "nameCell access styles p =
     (case name access of
        None \<Rightarrow> Inl TypeError
      | Some nf \<Rightarrow>
          (let nm = values_get nf (row_index p)
           in Inr (Anchor None (cellProps p) (userProps_href p)
                (cx [cellStyle p, styles ''cellWrapper'']) [Text nm])))"

text \<open>The \<^verbatim>\<open>Cell\<close> of the location column: one link or one span per path segment.\<close>

definition locationItem :: "(string \<rightharpoonup> LocationInfo) \<Rightarrow> Styles \<Rightarrow> string \<Rightarrow> 'a node" where
  "locationItem locInfo styles seg =
     (case get_property locInfo seg of
        Some (Own info) \<Rightarrow>
          Anchor (Some (KeyString seg)) [] (Some (info_url info)) [styles ''locationItem'']
            [Icon (getIconForKind (Some (info_kind info))), Text (Some '' ''),
             Text (Some (info_name info))]
      | Some (Inherited nm) \<Rightarrow>
          Anchor (Some (KeyString seg)) [] None [styles ''locationItem'']
            [Icon (getIconForKind None), Text (Some '' ''), Text nm]
      | None \<Rightarrow> Span (Some (KeyString seg)) [] None [Text (Some seg)])"

definition locationCell ::
  "QueryFields \<Rightarrow> (string \<rightharpoonup> LocationInfo) \<Rightarrow> Styles \<Rightarrow> CellProps \<Rightarrow> error + 'a node" where
  "locationCell access locInfo styles p =
     (let parts = str_split CHR ''/''
            (case location access of
               None \<Rightarrow> []
             | Some lf \<Rightarrow> (case values_get lf (row_index p) of None \<Rightarrow> [] | Some s \<Rightarrow> s))
      in Inr (Div (cellProps p) (cx [cellStyle p, css ''padding-right: 10px;''])
           (map (locationItem locInfo styles) parts)))"

text \<open>
  \<^verbatim>\<open>generateColumns\<close>. The mutable \<^verbatim>\<open>columns\<close>, \<^verbatim>\<open>width\<close> and \<^verbatim>\<open>availableWidth\<close> are
  rebound by each step, in the order of the source; \<^verbatim>\<open>-=\<close> is \<open>fsub\<close>, \<^verbatim>\<open>* 0.2\<close> is \<open>fmul\<close> by
  the double that the literal denotes, and \<^verbatim>\<open>Math.max\<close> is exact.
\<close>

definition generateColumns ::
  "Runtime \<Rightarrow> QueryResponse \<Rightarrow> real \<Rightarrow> (string option \<Rightarrow> string option \<Rightarrow> bool) option \<Rightarrow>
   (string option \<Rightarrow> string option \<Rightarrow> 'a) option \<Rightarrow> Styles \<Rightarrow> (string \<Rightarrow> 'a) \<Rightarrow>
   (string option \<Rightarrow> 'a) option \<Rightarrow> 'a TableColumn list" where
  "generateColumns rt response availableWidth selection selectionToggle styles onTagSelected
     onDatasourceChange =
     (let columns = [];
          access = view_fields (view response);
          uidField = uid access;
          kindField = kind access;
          colWidth = (50 :: real);
          (columns, availableWidth) =
            (case (selection, selectionToggle) of
               (Some sel, Some toggle) \<Rightarrow>
                 (let colWidth = (30 :: real) in
                  (columns @
                   [\<lparr> col_id = ''column-checkbox'',
                      width = colWidth,
                      Header = HeaderFn
                        (Div [] [styles ''checkboxHeader'']
                           [Checkbox None None
                              [StopPropagation, PreventDefault, Alert ''SELECT ALL!!!'']]),
                      Cell = CellFn (checkboxCell uidField kindField sel toggle styles),
                      field = map_option StringField uidField,
                      accessor = None \<rparr>],
                   fsub availableWidth colWidth))
             | _ \<Rightarrow> (columns, availableWidth));
          colWidth = max (fmul availableWidth (fl 0.2)) 300;
          columns = columns @
            [\<lparr> col_id = ''column-name'',
               width = colWidth,
               Header = HeaderText ''Name'',
               Cell = CellFn (nameCell access styles),
               field = map_option StringField (name access),
               accessor = None \<rparr>];
          availableWidth = fsub availableWidth colWidth;
          colWidth = TYPE_COLUMN_WIDTH;
          columns = columns @ [makeTypeColumn rt (kind access) (panel_type access) colWidth styles];
          availableWidth = fsub availableWidth colWidth;
          (columns, availableWidth) =
            (case (ds_uid access, onDatasourceChange) of
               (Some dsf, Some change) \<Rightarrow>
                 (let colWidth = DATASOURCE_COLUMN_WIDTH in
                  (columns @
                   [makeDataSourceColumn rt dsf colWidth (styles ''typeIcon'')
                      (styles ''datasourceItem'') (styles ''invalidDatasourceItem'') change],
                   fsub availableWidth colWidth))
             | _ \<Rightarrow> (columns, availableWidth));
          colWidth = max (fsub availableWidth TAGS_COLUMN_WIDTH) LOCATION_COLUMN_WIDTH;
          smeta = Option.bind (meta (dataFrame (view response))) custom;
          (columns, availableWidth) =
            (case Option.bind smeta locationInfo of
               Some locInfo \<Rightarrow>
                 (columns @
                  [\<lparr> col_id = ''column-location'',
                     width = colWidth,
                     Header = HeaderText ''Location'',
                     Cell = CellFn (locationCell access locInfo styles),
                     field = (case location access of
                                Some lf \<Rightarrow> Some (StringField lf)
                              | None \<Rightarrow> map_option StringField (url access)),
                     accessor = None \<rparr>],
                  fsub availableWidth colWidth)
             | None \<Rightarrow> (columns, availableWidth));
          columns = columns @
            [makeTagsColumn (tags access) availableWidth (styles ''tagList'') onTagSelected]
      in columns)"

subsection \<open>Notions used in the statements\<close>

text \<open>\<^verbatim>\<open>meta?.locationInfo\<close> of a response, \<^verbatim>\<open>meta\<close> being \<^verbatim>\<open>response.view.dataFrame.meta?.custom\<close>.\<close>

definition responseLocationInfo :: "QueryResponse \<Rightarrow> (string \<rightharpoonup> LocationInfo) option" where
  "responseLocationInfo response =
     Option.bind (Option.bind (meta (dataFrame (view response))) custom) locationInfo"

text \<open>
  The three columns \<^verbatim>\<open>generateColumns\<close> writes as object literals, named so that the
  statements can mention them.
\<close>

definition checkboxColumn ::
  "QueryFields \<Rightarrow> (string option \<Rightarrow> string option \<Rightarrow> bool) \<Rightarrow>
   (string option \<Rightarrow> string option \<Rightarrow> 'a) \<Rightarrow> Styles \<Rightarrow> 'a TableColumn" where
  "checkboxColumn access sel toggle styles =
     \<lparr> col_id = ''column-checkbox'',
       width = 30,
       Header = HeaderFn
         (Div [] [styles ''checkboxHeader'']
            [Checkbox None None [StopPropagation, PreventDefault, Alert ''SELECT ALL!!!'']]),
       Cell = CellFn (checkboxCell (uid access) (kind access) sel toggle styles),
       field = map_option StringField (uid access),
       accessor = None \<rparr>"

definition nameColumn :: "QueryFields \<Rightarrow> real \<Rightarrow> Styles \<Rightarrow> 'a TableColumn" where
  "nameColumn access colWidth styles =
     \<lparr> col_id = ''column-name'',
       width = colWidth,
       Header = HeaderText ''Name'',
       Cell = CellFn (nameCell access styles),
       field = map_option StringField (name access),
       accessor = None \<rparr>"

definition locationColumn ::
  "QueryFields \<Rightarrow> (string \<rightharpoonup> LocationInfo) \<Rightarrow> real \<Rightarrow> Styles \<Rightarrow> 'a TableColumn" where
  "locationColumn access locInfo colWidth styles =
     \<lparr> col_id = ''column-location'',
       width = colWidth,
       Header = HeaderText ''Location'',
       Cell = CellFn (locationCell access locInfo styles),
       field = (case location access of
                  Some lf \<Rightarrow> Some (StringField lf)
                | None \<Rightarrow> map_option StringField (url access)),
       accessor = None \<rparr>"

text \<open>The two flexible widths, as functions of the budget that is left when they are computed.\<close>

definition nameWidth :: "real \<Rightarrow> real" where
  "nameWidth remaining = max (fmul remaining (fl 0.2)) 300"

definition locationWidth :: "real \<Rightarrow> real" where
  "locationWidth remaining = max (fsub remaining 300) 200"

text \<open>What the grid gets when it runs the \<^verbatim>\<open>Cell\<close> of a column that has its own formatter.\<close>

definition runCell :: "'a cell \<Rightarrow> CellProps \<Rightarrow> (error + 'a node) option" where
  "runCell c p = (case c of DefaultCell \<Rightarrow> None | CellFn f \<Rightarrow> Some (f p))"

definition runAccessor :: "(nat \<Rightarrow> error + 'a node) option \<Rightarrow> nat \<Rightarrow> (error + 'a node) option" where
  "runAccessor acc i = (case acc of None \<Rightarrow> None | Some f \<Rightarrow> Some (f i))"

text \<open>
  What the grid gets from the planned columns with a given id, at a row: the result of the
  \<^verbatim>\<open>Cell\<close> formatter, or of the \<^verbatim>\<open>accessor\<close>, of each such column.
\<close>

definition plannedCell ::
  "'a TableColumn list \<Rightarrow> string \<Rightarrow> CellProps \<Rightarrow> (error + 'a node) option list" where
  "plannedCell cols cid p = map (\<lambda>c. runCell (Cell c) p) (filter (\<lambda>c. col_id c = cid) cols)"

definition plannedAccessor ::
  "'a TableColumn list \<Rightarrow> string \<Rightarrow> nat \<Rightarrow> (error + 'a node) option list" where
  "plannedAccessor cols cid i =
     map (\<lambda>c. runAccessor (accessor c) i) (filter (\<lambda>c. col_id c = cid) cols)"

text \<open>The event handlers attached to the elements of a tree, in document order.\<close>

fun handlers :: "'a node \<Rightarrow> 'a handler list" where
  "handlers Null = []"
| "handlers (Text t) = []"
| "handlers (Div ps cl cs) = concat (map handlers cs)"
| "handlers (Anchor k ps h cl cs) = concat (map handlers cs)"
| "handlers (Span k cl oc cs) =
     (case oc of None \<Rightarrow> [] | Some h \<Rightarrow> [h]) @ concat (map handlers cs)"
| "handlers (Checkbox d v h) = [h]"
| "handlers (Icon n) = []"
| "handlers (Img s w h t cl) = []"
| "handlers (SVG s w h t cl) = []"
| "handlers (TagList cl ts f) = []"

text \<open>The handlers in what the planned columns with a given id render at a row.\<close>

definition plannedHandlers ::
  "'a TableColumn list \<Rightarrow> string \<Rightarrow> CellProps \<Rightarrow> 'a handler list" where
  "plannedHandlers cols cid p =
     concat (map (\<lambda>r. case r of Some (Inr n) \<Rightarrow> handlers n | _ \<Rightarrow> [])
       (plannedCell cols cid p))"

text \<open>
  A handler suppresses before it calls when every \<open>Call\<close> it performs comes after both a
  \<open>StopPropagation\<close> and a \<open>PreventDefault\<close>.
\<close>

fun suppressed_from :: "bool \<Rightarrow> bool \<Rightarrow> 'a handler \<Rightarrow> bool" where
  "suppressed_from st pr [] = True"
| "suppressed_from st pr (StopPropagation # es) = suppressed_from True pr es"
| "suppressed_from st pr (PreventDefault # es) = suppressed_from st True es"
| "suppressed_from st pr (Alert msg # es) = suppressed_from st pr es"
| "suppressed_from st pr (Call a # es) = (st \<and> pr \<and> suppressed_from st pr es)"

definition suppresses_before_call :: "'a handler \<Rightarrow> bool" where
  "suppresses_before_call h = suppressed_from False False h"

subsection \<open>A concrete result set\<close>

text \<open>What the caller's callbacks do, for the examples: they record their arguments.\<close>

datatype action =
    Toggled "string option" "string option"
  | TagSelected string
  | DatasourceChanged "string option"

definition example_styles :: Styles where
  "example_styles k = ''s-'' @ k"

definition example_runtime :: Runtime where
  "example_runtime =
     \<lparr> config_panels =
         [''timeseries'' \<mapsto>
            \<lparr> plugin_name = Some ''Time series'',
              plugin_info = Some \<lparr> logos = Some \<lparr> small = Some ''img/icn-timeseries.svg'' \<rparr> \<rparr> \<rparr>],
       getInstanceSettings =
         (\<lambda>v. if v = ''ds1''
              then Some \<lparr> settings_uid = ''uid-1'', settings_type = ''prometheus'',
                          settings_name = ''Prometheus'',
                          settings_meta = Some
                            \<lparr> plugin_name = Some ''Prometheus'',
                              plugin_info =
                                Some \<lparr> logos = Some \<lparr> small = Some ''img/prometheus.svg'' \<rparr> \<rparr> \<rparr> \<rparr>
              else None) \<rparr>"

text \<open>Two rows: a dashboard with every value, and a panel row with no uid, tags or location.\<close>

definition example_fields :: QueryFields where
  "example_fields =
     \<lparr> uid = Some [Some ''u1'', None],
       kind = Some [Some ''dashboard'', Some ''panel''],
       name = Some [Some ''Home'', Some ''CPU''],
       panel_type = Some [None, Some ''timeseries''],
       ds_uid = Some [Some [''ds1'', ''ds2''], None],
       location = Some [Some ''a/b'', None],
       tags = Some [Some [''prod''], None],
       url = Some [Some ''/d/u1'', Some ''/d/u1?viewPanel=2''] \<rparr>"

definition example_locationInfo :: "string \<rightharpoonup> LocationInfo" where
  "example_locationInfo =
     [''a'' \<mapsto> \<lparr> info_kind = ''folder'', info_name = ''A'', info_url = ''/a'' \<rparr>]"

definition example_response :: QueryResponse where
  "example_response =
     \<lparr> view =
         \<lparr> dataFrame =
             \<lparr> meta = Some \<lparr> custom = Some \<lparr> locationInfo = Some example_locationInfo \<rparr> \<rparr> \<rparr>,
           view_fields = example_fields \<rparr> \<rparr>"

text \<open>A frame with no \<^verbatim>\<open>kind\<close> and no \<^verbatim>\<open>ds_uid\<close> accessor and no metadata.\<close>

definition bare_response :: QueryResponse where
  "bare_response =
     \<lparr> view =
         \<lparr> dataFrame = \<lparr> meta = None \<rparr>,
           view_fields = example_fields \<lparr> kind := None, ds_uid := None \<rparr> \<rparr> \<rparr>"


text \<open>
  One dashboard in a folder whose uid is \<^verbatim>\<open>constructor\<close>, and a \<^verbatim>\<open>locationInfo\<close> that has no
  entry at all.
\<close>

definition orphan_response :: QueryResponse where
  "orphan_response =
     \<lparr> view =
         \<lparr> dataFrame = \<lparr> meta = Some \<lparr> custom = Some \<lparr> locationInfo = Some Map.empty \<rparr> \<rparr> \<rparr>,
           view_fields = example_fields \<lparr> location := Some [Some ''constructor'', None] \<rparr> \<rparr> \<rparr>"

text \<open>
  Panels and other kinds: a panel whose \<^verbatim>\<open>panel_type\<close> is the empty string, one whose
  \<^verbatim>\<open>panel_type\<close> is \<^verbatim>\<open>constructor\<close>, one whose \<^verbatim>\<open>panel_type\<close> the registry does not know, a
  folder, and a row of a kind that the accessor has no case for.
\<close>

definition panels_response :: QueryResponse where
  "panels_response =
     \<lparr> view =
         \<lparr> dataFrame = \<lparr> meta = None \<rparr>,
           view_fields =
             \<lparr> uid = Some [None, None, None, Some ''f1'', Some ''q1''],
               kind = Some [Some ''panel'', Some ''panel'', Some ''panel'', Some ''folder'',
                            Some ''query''],
               name = Some [Some ''P0'', Some ''P1'', Some ''P2'', Some ''F'', Some ''Q''],
               panel_type = Some [Some '''', Some ''constructor'', Some ''heatmap'', None, None],
               ds_uid = None,
               location = None,
               tags = Some [None, None, None, None, None],
               url = Some [Some ''/p0'', Some ''/p1'', Some ''/p2'', Some ''/f'', Some ''/q''] \<rparr> \<rparr> \<rparr>"

definition example_selection :: "string option \<Rightarrow> string option \<Rightarrow> bool" where
  "example_selection k u = (u = Some ''u1'')"

definition example_props :: "nat \<Rightarrow> CellProps" where
  "example_props i =
     \<lparr> row_index = i, cellProps = [(''role'', ''cell'')], cellStyle = ''cell'',
       userProps_href = Some ''/d/u1'' \<rparr>"

section \<open>Properties of the planner\<close>

subsection \<open>The column list, step by step\<close>

text \<open>
  The list \<^verbatim>\<open>generateColumns\<close> returns, with the running budget written out: \<open>w0\<close> is
  the budget after the selection step, \<open>wn\<close> the width of the name column, \<open>w2\<close> the
  budget after the datasource step and \<open>wl\<close> the width the location column would get.
\<close>

lemma generateColumns_flat:
  "generateColumns rt response availableWidth selection selectionToggle styles onTagSelected
     onDatasourceChange =
   (let access = view_fields (view response);
        sel = (selection \<noteq> None \<and> selectionToggle \<noteq> None);
        w0 = (if sel then fsub availableWidth 30 else availableWidth);
        wn = nameWidth w0;
        ds = (ds_uid access \<noteq> None \<and> onDatasourceChange \<noteq> None);
        w1 = fsub (fsub w0 wn) 250;
        w2 = (if ds then fsub w1 200 else w1);
        wl = locationWidth w2;
        loc = responseLocationInfo response
    in (if sel then [checkboxColumn access (the selection) (the selectionToggle) styles]
        else []) @
       [nameColumn access wn styles,
        makeTypeColumn rt (kind access) (panel_type access) 250 styles] @
       (if ds then
          [makeDataSourceColumn rt (the (ds_uid access)) 200 (styles ''typeIcon'')
             (styles ''datasourceItem'') (styles ''invalidDatasourceItem'')
             (the onDatasourceChange)]
        else []) @
       (case loc of Some locInfo \<Rightarrow> [locationColumn access locInfo wl styles] | None \<Rightarrow> []) @
       [makeTagsColumn (tags access)
          (case loc of Some locInfo \<Rightarrow> fsub w2 wl | None \<Rightarrow> w2) (styles ''tagList'')
          onTagSelected])"
proof (cases selection; cases selectionToggle; cases "ds_uid (view_fields (view response))";
    cases onDatasourceChange; cases "responseLocationInfo response")
qed (simp_all add: generateColumns_def Let_def responseLocationInfo_def TYPE_COLUMN_WIDTH_def
    DATASOURCE_COLUMN_WIDTH_def LOCATION_COLUMN_WIDTH_def TAGS_COLUMN_WIDTH_def
    checkboxColumn_def nameColumn_def locationColumn_def nameWidth_def locationWidth_def)

text \<open>What the statements read of a column: its id, its width and its formatters.\<close>

lemma checkboxColumn_sel [simp]:
  "col_id (checkboxColumn access sel toggle styles) = ''column-checkbox''"
  "width (checkboxColumn access sel toggle styles) = 30"
  "Cell (checkboxColumn access sel toggle styles) =
     CellFn (checkboxCell (uid access) (kind access) sel toggle styles)"
  "accessor (checkboxColumn access sel toggle styles) = None"
  by (simp_all add: checkboxColumn_def)

lemma nameColumn_sel [simp]:
  "col_id (nameColumn access w styles) = ''column-name''"
  "width (nameColumn access w styles) = w"
  "Cell (nameColumn access w styles) = CellFn (nameCell access styles)"
  "accessor (nameColumn access w styles) = None"
  by (simp_all add: nameColumn_def)

lemma locationColumn_sel [simp]:
  "col_id (locationColumn access locInfo w styles) = ''column-location''"
  "width (locationColumn access locInfo w styles) = w"
  "Cell (locationColumn access locInfo w styles) = CellFn (locationCell access locInfo styles)"
  "accessor (locationColumn access locInfo w styles) = None"
  by (simp_all add: locationColumn_def)

lemma makeTypeColumn_sel [simp]:
  "col_id (makeTypeColumn rt kf tf w styles) = ''column-type''"
  "width (makeTypeColumn rt kf tf w styles) = w"
  "Cell (makeTypeColumn rt kf tf w styles) = DefaultCell"
  "accessor (makeTypeColumn rt kf tf w styles) = Some (typeAccessor rt kf tf styles)"
  by (simp_all add: makeTypeColumn_def)

lemma makeDataSourceColumn_sel [simp]:
  "col_id (makeDataSourceColumn rt fld w ic dc ivc change) = ''column-datasource''"
  "width (makeDataSourceColumn rt fld w ic dc ivc change) = w"
  "Cell (makeDataSourceColumn rt fld w ic dc ivc change) =
     CellFn (dataSourceCell rt fld ic dc ivc change)"
  "accessor (makeDataSourceColumn rt fld w ic dc ivc change) = None"
  by (simp_all add: makeDataSourceColumn_def)

lemma makeTagsColumn_sel [simp]:
  "col_id (makeTagsColumn fld w cl onTagSelected) = ''column-tags''"
  "width (makeTagsColumn fld w cl onTagSelected) = w"
  "Cell (makeTagsColumn fld w cl onTagSelected) = CellFn (tagsCell fld cl onTagSelected)"
  "accessor (makeTagsColumn fld w cl onTagSelected) = None"
  by (simp_all add: makeTagsColumn_def)

lemmas flat_defs = generateColumns_flat Let_def

subsection \<open>Rounding\<close>

lemma pow2_powi: "pow2 e = 2 powi e"
  by (simp add: pow2_def power_int_def power_one_over)

lemma pow2_pos [simp]: "0 < pow2 e"
  by (simp add: pow2_powi)

lemma pow2_add: "pow2 (a + b) = pow2 a * pow2 b"
  by (simp add: pow2_powi power_int_add)

lemma pow2_52: "pow2 (e - 52) = pow2 e / 2 ^ 52"
  using pow2_add[of e "- 52"] by (simp add: pow2_def)

lemma expo_up_bounds: "1 \<le> x \<Longrightarrow> 2 ^ expo_up x \<le> x \<and> x < 2 ^ Suc (expo_up x)"
proof (induction x rule: expo_up.induct)
  case (1 x)
  show ?case
  proof (cases "x < 2")
    case True
    with 1(2) show ?thesis by (simp add: expo_up.simps[of x])
  next
    case False
    then have "1 \<le> x / 2" by simp
    from 1(1)[OF False this] False show ?thesis
      by (simp add: expo_up.simps[of x])
  qed
qed

lemma expo_down_bounds:
  "0 < x \<Longrightarrow> x < 1 \<Longrightarrow> 1 \<le> x * 2 ^ expo_down x \<and> x * 2 ^ expo_down x < 2"
proof (induction x rule: expo_down.induct)
  case (1 x)
  show ?case
  proof (cases "2 * x < 1")
    case True
    with 1 have "1 \<le> 2 * x * 2 ^ expo_down (2 * x) \<and> 2 * x * 2 ^ expo_down (2 * x) < 2"
      by simp
    with 1(2,3) show ?thesis
      by (simp add: expo_down.simps[of x] mult.assoc mult.left_commute)
  next
    case False
    with 1(2,3) show ?thesis
      by (simp add: expo_down.simps[of x] expo_down.simps[of "2 * x"])
  qed
qed

lemma expo_bounds:
  assumes "x \<noteq> 0"
  shows "pow2 (expo x) \<le> \<bar>x\<bar> \<and> \<bar>x\<bar> < pow2 (expo x + 1)"
proof (cases "1 \<le> \<bar>x\<bar>")
  case True
  from expo_up_bounds[OF True] True show ?thesis
    by (simp add: expo_def pow2_def nat_add_distrib)
next
  case False
  with assms have x: "0 < \<bar>x\<bar>" "\<bar>x\<bar> < 1" by auto
  let ?n = "expo_down \<bar>x\<bar>"
  from expo_down_bounds[OF x] have b: "1 \<le> \<bar>x\<bar> * 2 ^ ?n" "\<bar>x\<bar> * 2 ^ ?n < 2" by auto
  have n: "0 < ?n" using x by (simp add: expo_down.simps[of "\<bar>x\<bar>"])
  have p: "pow2 (- int ?n) = 1 / 2 ^ ?n" using n by (simp add: pow2_def)
  have p1: "pow2 (1 - int ?n) = 2 / 2 ^ ?n"
    using pow2_add[of "- int ?n" 1] p by (simp add: pow2_def)
  from b show ?thesis using False
    by (simp add: expo_def p p1 field_simps)
qed

lemma rne_err: "\<bar>of_int (rne y) - y\<bar> \<le> 1 / 2"
proof -
  have "of_int \<lfloor>y\<rfloor> \<le> y" "y < of_int \<lfloor>y\<rfloor> + 1" by linarith+
  then show ?thesis by (auto simp add: rne_def Let_def)
qed

lemma rne_ge: "of_int n \<le> y \<Longrightarrow> n \<le> rne y"
proof -
  assume "of_int n \<le> y"
  then have "n \<le> \<lfloor>y\<rfloor>" by (simp add: le_floor_iff)
  then show ?thesis by (auto simp add: rne_def Let_def)
qed

lemma rne_le: "y \<le> of_int n \<Longrightarrow> rne y \<le> n"
proof -
  assume a: "y \<le> of_int n"
  have f: "of_int \<lfloor>y\<rfloor> \<le> y" by linarith
  show ?thesis
  proof (cases "y = of_int \<lfloor>y\<rfloor>")
    case True
    with a have "\<lfloor>y\<rfloor> \<le> n" by linarith
    with True show ?thesis by (simp add: rne_def Let_def)
  next
    case False
    with f a have "of_int \<lfloor>y\<rfloor> < (of_int n :: real)" by linarith
    then have "\<lfloor>y\<rfloor> + 1 \<le> n" by linarith
    then show ?thesis by (auto simp add: rne_def Let_def)
  qed
qed

lemma fl_0 [simp]: "fl 0 = 0"
  by (simp add: fl_def)

text \<open>The rounding error is at most half a unit in the last place.\<close>

lemma fl_error: "\<bar>fl x - x\<bar> \<le> \<bar>x\<bar> / 2 ^ 53"
proof (cases "x = 0")
  case True
  then show ?thesis by simp
next
  case False
  define q where "q = pow2 (expo x - 52)"
  have q: "0 < q" by (simp add: q_def)
  have "fl x - x = (of_int (rne (x / q)) - x / q) * q"
    using False q by (simp add: fl_def q_def[symmetric] Let_def field_simps)
  then have "\<bar>fl x - x\<bar> = \<bar>of_int (rne (x / q)) - x / q\<bar> * q"
    using q by (simp add: abs_mult)
  also have "\<dots> \<le> 1 / 2 * q"
    using rne_err[of "x / q"] q by (intro mult_right_mono) simp_all
  also have "\<dots> = pow2 (expo x) / 2 ^ 53"
    by (simp add: q_def pow2_52)
  also have "\<dots> \<le> \<bar>x\<bar> / 2 ^ 53"
    using expo_bounds[OF False] by (simp add: divide_right_mono)
  finally show ?thesis .
qed

text \<open>Rounding keeps the sign.\<close>

lemma fl_pos: "0 < x \<Longrightarrow> 0 < fl x"
proof -
  assume x: "0 < x"
  define q where "q = pow2 (expo x - 52)"
  have q: "0 < q" by (simp add: q_def)
  from x expo_bounds[of x] have "pow2 (expo x) \<le> x" by simp
  then have "2 ^ 52 \<le> x / q" by (simp add: q_def pow2_52 field_simps)
  then have "of_int 1 \<le> x / q" by simp
  from rne_ge[OF this] have "0 < rne (x / q)" by simp
  with q x show ?thesis by (simp add: fl_def q_def[symmetric] Let_def)
qed

lemma fl_neg: "x < 0 \<Longrightarrow> fl x < 0"
proof -
  assume x: "x < 0"
  define q where "q = pow2 (expo x - 52)"
  have q: "0 < q" by (simp add: q_def)
  from x expo_bounds[of x] have "pow2 (expo x) \<le> - x" by simp
  then have "2 ^ 52 \<le> - x / q" by (simp add: q_def pow2_52 field_simps)
  then have "x / q \<le> of_int (- 1)" by simp
  from rne_le[OF this] have "rne (x / q) < 0" by simp
  with q x show ?thesis by (simp add: fl_def q_def[symmetric] Let_def mult_neg_pos)
qed

text \<open>Two coarse consequences, for a bound \<open>b\<close> on the exact result.\<close>

lemma fl_bounded:
  assumes "\<bar>x\<bar> \<le> b"
  shows "\<bar>fl x - x\<bar> \<le> b / 9007199254740992" and "\<bar>fl x\<bar> \<le> 2 * b"
proof -
  have "\<bar>x\<bar> / 2 ^ 53 \<le> b / 2 ^ 53" using assms by (simp add: divide_right_mono)
  with fl_error[of x] show e: "\<bar>fl x - x\<bar> \<le> b / 9007199254740992" by simp
  have "b / 9007199254740992 \<le> b" using assms by simp
  with e assms show "\<bar>fl x\<bar> \<le> 2 * b" by linarith
qed

lemma fl_below:
  assumes "x \<le> b" and "0 \<le> b"
  shows "fl x \<le> b + b / 9007199254740992"
proof (cases "0 < x")
  case True
  have "\<bar>fl x - x\<bar> \<le> x / 9007199254740992"
    using fl_error[of x] True by simp
  then have "fl x \<le> x + x / 9007199254740992" by linarith
  also have "\<dots> \<le> b + b / 9007199254740992" using assms(1) by simp
  finally show ?thesis .
next
  case False
  then have "fl x \<le> 0" using fl_neg[of x] by (cases "x = 0") auto
  with assms(2) show ?thesis by simp
qed

text \<open>The double that the literal \<^verbatim>\<open>0.2\<close> denotes.\<close>

lemma fl_0_2: "fl 0.2 = 3602879701896397 / 18014398509481984"
  by (simp add: fl_def expo_def expo_down.simps rne_def pow2_def Let_def)

lemma fl_fifth: "fl (1 / 5) = 3602879701896397 / 18014398509481984"
  using fl_0_2 by simp

lemma nameWidth_bounds: "300 \<le> nameWidth w" "nameWidth w \<le> max (\<bar>w\<bar> / 2) 300"
proof -
  show "300 \<le> nameWidth w" by (simp add: nameWidth_def)
  have "\<bar>w * fl 0.2\<bar> \<le> \<bar>w\<bar> / 4"
    by (simp add: fl_fifth abs_mult)
  from fl_bounded(2)[OF this] have "fl (w * fl 0.2) \<le> \<bar>w\<bar> / 2" by simp
  then show "nameWidth w \<le> max (\<bar>w\<bar> / 2) 300"
    by (simp add: nameWidth_def fmul_def)
qed

lemma locationWidth_bounds: "200 \<le> locationWidth w" "locationWidth w \<le> 2 * \<bar>w\<bar> + 600"
proof -
  show "200 \<le> locationWidth w" by (simp add: locationWidth_def)
  have "\<bar>w - 300\<bar> \<le> \<bar>w\<bar> + 300" by simp
  from fl_bounded(2)[OF this] have "fl (w - 300) \<le> 2 * \<bar>w\<bar> + 600" by simp
  then show "locationWidth w \<le> 2 * \<bar>w\<bar> + 600"
    by (simp add: locationWidth_def fsub_def)
qed

subsection \<open>The running budget\<close>

text \<open>
  The running budget. With \<open>s\<close>, \<open>d\<close>, \<open>l\<close> saying which optional columns are planned, the
  widths add up to \<open>A\<close> plus the rounding errors of the subtractions.
\<close>

lemma budget_chain_error:
  fixes A :: real
  assumes w0: "w0 = (if s then fsub A 30 else A)"
    and wn: "wn = nameWidth w0"
    and w1: "w1 = fsub (fsub w0 wn) 250"
    and w2: "w2 = (if d then fsub w1 200 else w1)"
    and wl: "wl = locationWidth w2"
    and wt: "wt = (if l then fsub w2 wl else w2)"
  shows "\<bar>(if s then 30 else 0) + wn + 250 + (if d then 200 else 0) + (if l then wl else 0)
           + wt - A\<bar> \<le> (\<bar>A\<bar> + 200) / 2 ^ 46"
proof -
  define S :: real where "S = (if s then 30 else 0)"
  define D :: real where "D = (if d then 200 else 0)"
  define L :: real where "L = (if l then wl else 0)"
  define t2 where "t2 = fsub w0 wn"
  define a where "a = \<bar>A\<bar>"
  have a0: "0 \<le> a" by (simp add: a_def)
  have e0: "\<bar>w0 - (A - S)\<bar> \<le> (a + 30) / 9007199254740992" and b0: "\<bar>w0\<bar> \<le> 2 * a + 60"
  proof -
    have x: "\<bar>A - 30\<bar> \<le> a + 30" by (simp add: a_def)
    from fl_bounded[OF x] a0 show "\<bar>w0 - (A - S)\<bar> \<le> (a + 30) / 9007199254740992"
      by (cases s) (simp_all add: w0 S_def fsub_def)
    from fl_bounded[OF x] a0 show "\<bar>w0\<bar> \<le> 2 * a + 60"
      by (cases s) (simp_all add: w0 S_def fsub_def a_def)
  qed
  have n: "300 \<le> wn" "wn \<le> a + 300"
    using nameWidth_bounds[of w0] b0 a0 by (simp_all add: wn)
  have x2: "\<bar>w0 - wn\<bar> \<le> 3 * a + 360" using b0 n by linarith
  have e2: "\<bar>t2 - (w0 - wn)\<bar> \<le> (3 * a + 360) / 9007199254740992" and b2: "\<bar>t2\<bar> \<le> 6 * a + 720"
    using fl_bounded[OF x2] by (simp_all add: t2_def fsub_def)
  have x3: "\<bar>t2 - 250\<bar> \<le> 6 * a + 970" using b2 by linarith
  have e3: "\<bar>w1 - (t2 - 250)\<bar> \<le> (6 * a + 970) / 9007199254740992" and b3: "\<bar>w1\<bar> \<le> 12 * a + 1940"
    using fl_bounded[OF x3] by (simp_all add: w1 t2_def fsub_def)
  have e4: "\<bar>w2 - (w1 - D)\<bar> \<le> (12 * a + 2140) / 9007199254740992" and b4: "\<bar>w2\<bar> \<le> 24 * a + 4280"
  proof -
    have x: "\<bar>w1 - 200\<bar> \<le> 12 * a + 2140" using b3 by linarith
    from fl_bounded[OF x] a0 show "\<bar>w2 - (w1 - D)\<bar> \<le> (12 * a + 2140) / 9007199254740992"
      by (cases d) (simp_all add: w2 D_def fsub_def)
    from fl_bounded[OF x] b3 a0 show "\<bar>w2\<bar> \<le> 24 * a + 4280"
      by (cases d) (simp_all add: w2 D_def fsub_def)
  qed
  have lw: "200 \<le> wl" "wl \<le> 48 * a + 9160"
    using locationWidth_bounds[of w2] b4 by (simp_all add: wl)
  have e5: "\<bar>wt - (w2 - L)\<bar> \<le> (72 * a + 13440) / 9007199254740992"
  proof -
    have x: "\<bar>w2 - wl\<bar> \<le> 72 * a + 13440" using b4 lw by linarith
    from fl_bounded(1)[OF x] a0 show ?thesis
      by (cases l) (simp_all add: wt L_def fsub_def)
  qed
  define E0 where "E0 = w0 - (A - S)"
  define E2 where "E2 = t2 - (w0 - wn)"
  define E3 where "E3 = w1 - (t2 - 250)"
  define E4 where "E4 = w2 - (w1 - D)"
  define E5 where "E5 = wt - (w2 - L)"
  have "S + wn + 250 + D + L + wt - A = E5 + E4 + E3 + E2 + E0"
    by (simp add: E0_def E2_def E3_def E4_def E5_def)
  moreover have "\<bar>E5 + E4 + E3 + E2 + E0\<bar> \<le> \<bar>E5\<bar> + \<bar>E4\<bar> + \<bar>E3\<bar> + \<bar>E2\<bar> + \<bar>E0\<bar>"
    by linarith
  moreover have "\<bar>E5\<bar> + \<bar>E4\<bar> + \<bar>E3\<bar> + \<bar>E2\<bar> + \<bar>E0\<bar> \<le>
      (72 * a + 13440) / 9007199254740992 + (12 * a + 2140) / 9007199254740992 +
      (6 * a + 970) / 9007199254740992 + (3 * a + 360) / 9007199254740992 +
      (a + 30) / 9007199254740992"
    using e0 e2 e3 e4 e5 unfolding E0_def E2_def E3_def E4_def E5_def
    by (intro add_mono)
  moreover have "(72 * a + 13440) / 9007199254740992 + (12 * a + 2140) / 9007199254740992 +
      (6 * a + 970) / 9007199254740992 + (3 * a + 360) / 9007199254740992 +
      (a + 30) / 9007199254740992 = (94 * a + 16940) / 9007199254740992"
    by (simp add: field_simps)
  ultimately have "\<bar>S + wn + 250 + D + L + wt - A\<bar> \<le> (94 * a + 16940) / 9007199254740992"
    by simp
  also have "\<dots> \<le> (a + 200) / 2 ^ 46" using a0 by simp
  finally show ?thesis by (simp add: S_def D_def L_def a_def)
qed

text \<open>Below 550 the budget is negative after the name and the type column, and stays so.\<close>

lemma budget_chain_negative:
  fixes A :: real
  assumes w0: "w0 = (if s then fsub A 30 else A)"
    and wn: "wn = nameWidth w0"
    and w1: "w1 = fsub (fsub w0 wn) 250"
    and w2: "w2 = (if d then fsub w1 200 else w1)"
    and wl: "wl = locationWidth w2"
    and wt: "wt = (if l then fsub w2 wl else w2)"
    and A: "A \<le> 549"
  shows "wt < 0"
proof -
  have b0: "w0 \<le> 549"
  proof (cases s)
    case True
    from A have "A - 30 \<le> 519" by simp
    from fl_below[OF this] show ?thesis by (simp add: w0 True fsub_def)
  next
    case False
    with A show ?thesis by (simp add: w0)
  qed
  have "300 \<le> wn" using nameWidth_bounds(1)[of w0] by (simp add: wn)
  with b0 have "w0 - wn \<le> 249" by simp
  from fl_below[OF this] have "fsub w0 wn < 250" by (simp add: fsub_def)
  then have n1: "w1 < 0" by (simp add: w1 fsub_def fl_neg)
  have n2: "w2 < 0"
    using n1 by (cases d) (simp_all add: w2 fsub_def fl_neg)
  have "200 \<le> wl" using locationWidth_bounds(1)[of w2] by (simp add: wl)
  with n2 show ?thesis
    by (cases l) (simp_all add: wt fsub_def fl_neg)
qed

subsection \<open>Widths and ids of the plan\<close>

lemma generateColumns_widths:
  "map width (generateColumns rt response availableWidth selection selectionToggle styles
     onTagSelected onDatasourceChange) =
   (let s = (selection \<noteq> None \<and> selectionToggle \<noteq> None);
        d = (ds_uid (view_fields (view response)) \<noteq> None \<and> onDatasourceChange \<noteq> None);
        l = (responseLocationInfo response \<noteq> None);
        w0 = (if s then fsub availableWidth 30 else availableWidth);
        wn = nameWidth w0;
        w1 = fsub (fsub w0 wn) 250;
        w2 = (if d then fsub w1 200 else w1);
        wl = locationWidth w2;
        wt = (if l then fsub w2 wl else w2)
    in (if s then [30] else []) @ [wn, 250] @ (if d then [200] else []) @
       (if l then [wl] else []) @ [wt])"
  by (cases selection; cases selectionToggle; cases "ds_uid (view_fields (view response))";
      cases onDatasourceChange; cases "responseLocationInfo response")
    (simp_all add: flat_defs)

lemma generateColumns_ids:
  "map col_id (generateColumns rt response availableWidth selection selectionToggle styles
     onTagSelected onDatasourceChange) =
   (if selection \<noteq> None \<and> selectionToggle \<noteq> None then [''column-checkbox''] else []) @
   [''column-name'', ''column-type''] @
   (if ds_uid (view_fields (view response)) \<noteq> None \<and> onDatasourceChange \<noteq> None
    then [''column-datasource''] else []) @
   (if responseLocationInfo response \<noteq> None then [''column-location''] else []) @
   [''column-tags'']"
  by (cases selection; cases selectionToggle; cases "ds_uid (view_fields (view response))";
      cases onDatasourceChange; cases "responseLocationInfo response")
    (simp_all add: flat_defs)

lemma generateColumns_last:
  "col_id (last (generateColumns rt response availableWidth selection selectionToggle
      styles onTagSelected onDatasourceChange)) = ''column-tags'' \<and>
   width (last (generateColumns rt response availableWidth selection selectionToggle
      styles onTagSelected onDatasourceChange)) =
     foldl fsub availableWidth (map width (butlast (generateColumns rt response availableWidth
        selection selectionToggle styles onTagSelected onDatasourceChange))) \<and>
   Cell (last (generateColumns rt response availableWidth selection selectionToggle
      styles onTagSelected onDatasourceChange)) =
     CellFn (tagsCell (tags (view_fields (view response))) (styles ''tagList'') onTagSelected)"
  by (cases selection; cases selectionToggle; cases "ds_uid (view_fields (view response))";
      cases onDatasourceChange; cases "responseLocationInfo response")
    (simp_all add: flat_defs)

lemma nameWidth_pos: "0 < nameWidth w"
  using nameWidth_bounds(1)[of w] by linarith

lemma locationWidth_pos: "0 < locationWidth w"
  using locationWidth_bounds(1)[of w] by linarith

lemma generateColumns_butlast_widths:
  "\<forall>c \<in> set (butlast (generateColumns rt response availableWidth selection selectionToggle
      styles onTagSelected onDatasourceChange)).
   (col_id c = ''column-checkbox'' \<longrightarrow> width c = 30) \<and>
   (col_id c = ''column-name'' \<longrightarrow> 300 \<le> width c) \<and>
   (col_id c = ''column-type'' \<longrightarrow> width c = 250) \<and>
   (col_id c = ''column-datasource'' \<longrightarrow> width c = 200) \<and>
   (col_id c = ''column-location'' \<longrightarrow> 200 \<le> width c) \<and>
   col_id c \<noteq> ''column-tags'' \<and> 0 < width c"
  by (cases selection; cases selectionToggle; cases "ds_uid (view_fields (view response))";
      cases onDatasourceChange; cases "responseLocationInfo response")
    (simp_all add: flat_defs nameWidth_bounds(1) locationWidth_bounds(1) nameWidth_pos
      locationWidth_pos)

lemma generateColumns_widths_error:
  "\<bar>sum_list (map width (generateColumns rt response availableWidth selection selectionToggle
      styles onTagSelected onDatasourceChange)) - availableWidth\<bar>
   \<le> (\<bar>availableWidth\<bar> + 200) / 2 ^ 46"
proof -
  define s where "s = (selection \<noteq> None \<and> selectionToggle \<noteq> None)"
  define d where
    "d = (ds_uid (view_fields (view response)) \<noteq> None \<and> onDatasourceChange \<noteq> None)"
  define l where "l = (responseLocationInfo response \<noteq> None)"
  define w0 where "w0 = (if s then fsub availableWidth 30 else availableWidth)"
  define wn where "wn = nameWidth w0"
  define w1 where "w1 = fsub (fsub w0 wn) 250"
  define w2 where "w2 = (if d then fsub w1 200 else w1)"
  define wl where "wl = locationWidth w2"
  define wt where "wt = (if l then fsub w2 wl else w2)"
  have "map width (generateColumns rt response availableWidth selection selectionToggle
      styles onTagSelected onDatasourceChange) =
      (if s then [30] else []) @ [wn, 250] @ (if d then [200] else []) @
       (if l then [wl] else []) @ [wt]"
    unfolding generateColumns_widths Let_def s_def d_def l_def w0_def wn_def w1_def w2_def
      wl_def wt_def ..
  then have "sum_list (map width (generateColumns rt response availableWidth selection
      selectionToggle styles onTagSelected onDatasourceChange)) =
      (if s then 30 else 0) + wn + 250 + (if d then 200 else 0) + (if l then wl else 0) + wt"
    by (cases s; cases d; cases l) simp_all
  with budget_chain_error[OF w0_def wn_def w1_def w2_def wl_def wt_def]
  show ?thesis by simp
qed

lemma generateColumns_tags_negative:
  assumes "availableWidth \<le> 549"
  shows "width (last (generateColumns rt response availableWidth selection selectionToggle
      styles onTagSelected onDatasourceChange)) < 0"
proof -
  define s where "s = (selection \<noteq> None \<and> selectionToggle \<noteq> None)"
  define d where
    "d = (ds_uid (view_fields (view response)) \<noteq> None \<and> onDatasourceChange \<noteq> None)"
  define l where "l = (responseLocationInfo response \<noteq> None)"
  define w0 where "w0 = (if s then fsub availableWidth 30 else availableWidth)"
  define wn where "wn = nameWidth w0"
  define w1 where "w1 = fsub (fsub w0 wn) 250"
  define w2 where "w2 = (if d then fsub w1 200 else w1)"
  define wl where "wl = locationWidth w2"
  define wt where "wt = (if l then fsub w2 wl else w2)"
  let ?cols = "generateColumns rt response availableWidth selection selectionToggle
      styles onTagSelected onDatasourceChange"
  have "map width ?cols =
      (if s then [30] else []) @ [wn, 250] @ (if d then [200] else []) @
       (if l then [wl] else []) @ [wt]"
    unfolding generateColumns_widths Let_def s_def d_def l_def w0_def wn_def w1_def w2_def
      wl_def wt_def ..
  then have "last (map width ?cols) = wt" by simp
  moreover have "?cols \<noteq> []" by (simp add: flat_defs)
  ultimately have "width (last ?cols) = wt" by (simp add: last_map)
  with budget_chain_negative[OF w0_def wn_def w1_def w2_def wl_def wt_def assms]
  show ?thesis by simp
qed

text \<open>
  Evaluating the arithmetic on numerals: the definitions of the rounding, for \<open>simp\<close>.
\<close>

lemmas fl_eval = fl_def expo_def expo_up.simps expo_down.simps rne_def pow2_def Let_def
  fsub_def fmul_def nameWidth_def locationWidth_def

text \<open>The plan for the example result set at 2000 pixels, with every optional column.\<close>

lemma example_widths:
  "map width (generateColumns example_runtime example_response 2000
     (Some example_selection) (Some Toggled) example_styles TagSelected
     (Some DatasourceChanged)) = [30, 394, 250, 200, 826, 300]"
proof -
  have "fsub 2000 30 = 1970" by (simp add: fl_eval)
  moreover have "nameWidth 1970 = 394" by (simp add: fl_eval fl_fifth)
  moreover have "fsub (fsub 1970 394) 250 = 1326" by (simp add: fl_eval)
  moreover have "fsub 1326 200 = 1126" by (simp add: fl_eval)
  moreover have "locationWidth 1126 = 826" by (simp add: fl_eval)
  moreover have "fsub 1126 826 = 300" by (simp add: fl_eval)
  ultimately show ?thesis
    by (simp add: generateColumns_widths example_response_def example_fields_def
        responseLocationInfo_def)
qed

lemma example_ids:
  "map col_id (generateColumns example_runtime example_response 2000
     (Some example_selection) (Some Toggled) example_styles TagSelected
     (Some DatasourceChanged)) =
   [''column-checkbox'', ''column-name'', ''column-type'', ''column-datasource'',
    ''column-location'', ''column-tags'']"
  by (simp add: generateColumns_ids example_response_def example_fields_def
      responseLocationInfo_def)

subsection \<open>What the grid runs for each column\<close>

text \<open>
  The formatter that \<^verbatim>\<open>generateColumns\<close> plans under each id, applied to a row: the type
  column runs \<open>typeAccessor\<close> on the \<^verbatim>\<open>kind\<close> and \<^verbatim>\<open>panel_type\<close> accessors of the result, the
  location column runs \<open>locationCell\<close> on the \<^verbatim>\<open>locationInfo\<close> of the metadata, and so on.
\<close>

lemma plannedAccessor_type:
  "plannedAccessor (generateColumns rt response availableWidth selection selectionToggle
      styles onTagSelected onDatasourceChange) ''column-type'' i =
   [Some (typeAccessor rt (kind (view_fields (view response)))
      (panel_type (view_fields (view response))) styles i)]"
  by (cases selection; cases selectionToggle; cases "ds_uid (view_fields (view response))";
      cases onDatasourceChange; cases "responseLocationInfo response")
    (simp_all add: flat_defs plannedAccessor_def runAccessor_def)

lemma plannedCell_checkbox:
  "plannedCell (generateColumns rt response availableWidth selection selectionToggle
      styles onTagSelected onDatasourceChange) ''column-checkbox'' p =
   (case selection of
      None \<Rightarrow> []
    | Some sel \<Rightarrow>
        (case selectionToggle of
           None \<Rightarrow> []
         | Some toggle \<Rightarrow>
             [Some (checkboxCell (uid (view_fields (view response)))
                (kind (view_fields (view response))) sel toggle styles p)]))"
  by (cases selection; cases selectionToggle; cases "ds_uid (view_fields (view response))";
      cases onDatasourceChange; cases "responseLocationInfo response")
    (simp_all add: flat_defs plannedCell_def runCell_def)

lemma plannedCell_datasource:
  "plannedCell (generateColumns rt response availableWidth selection selectionToggle
      styles onTagSelected onDatasourceChange) ''column-datasource'' p =
   (case ds_uid (view_fields (view response)) of
      None \<Rightarrow> []
    | Some dsf \<Rightarrow>
        (case onDatasourceChange of
           None \<Rightarrow> []
         | Some change \<Rightarrow>
             [Some (dataSourceCell rt dsf (styles ''typeIcon'') (styles ''datasourceItem'')
                (styles ''invalidDatasourceItem'') change p)]))"
  by (cases selection; cases selectionToggle; cases "ds_uid (view_fields (view response))";
      cases onDatasourceChange; cases "responseLocationInfo response")
    (simp_all add: flat_defs plannedCell_def runCell_def)

lemma plannedCell_location:
  "plannedCell (generateColumns rt response availableWidth selection selectionToggle
      styles onTagSelected onDatasourceChange) ''column-location'' p =
   (case responseLocationInfo response of
      None \<Rightarrow> []
    | Some locInfo \<Rightarrow> [Some (locationCell (view_fields (view response)) locInfo styles p)])"
  by (cases selection; cases selectionToggle; cases "ds_uid (view_fields (view response))";
      cases onDatasourceChange; cases "responseLocationInfo response")
    (simp_all add: flat_defs plannedCell_def runCell_def)

subsection \<open>The width budget\<close>

text \<open>
  C1, as stated, bounds the sum of the widths by \<^verbatim>\<open>availableWidth\<close>. The tags column gets
  what is left of the budget after a chain of subtractions on doubles, each one rounded,
  and the sum of the widths can exceed \<^verbatim>\<open>availableWidth\<close> by the rounding error. At 1503
  with no optional column the widths are the doubles that print as \<^verbatim>\<open>300.6\<close>, \<^verbatim>\<open>250\<close> and
  \<^verbatim>\<open>952.4000000000001\<close>; their sum is \<open>1503 + 1 / 2 ^ 43\<close>.
\<close>

theorem widths_exceed_budget_counterexample:
  "map width (generateColumns example_runtime bare_response 1503 None None
        example_styles TagSelected None) =
      [2644105562475725 / 8796093022208, 250, 2094349748587725 / 2199023255552] \<and>
   sum_list (map width (generateColumns example_runtime bare_response 1503 None None
        example_styles TagSelected None)) = 1503 + 1 / 2 ^ 43 \<and>
   \<not> sum_list (map width (generateColumns example_runtime bare_response 1503 None None
        example_styles TagSelected None)) \<le> 1503"
proof -
  have n: "nameWidth 1503 = 2644105562475725 / 8796093022208"
    by (simp add: fl_eval fl_fifth)
  have t: "fsub (fsub 1503 (2644105562475725 / 8796093022208)) 250 =
      2094349748587725 / 2199023255552"
    by (simp add: fl_eval)
  have "map width (generateColumns example_runtime bare_response 1503 None None
        example_styles TagSelected None) =
      [2644105562475725 / 8796093022208, 250, 2094349748587725 / 2199023255552]"
    by (simp add: generateColumns_widths bare_response_def example_fields_def
        responseLocationInfo_def n t)
  then show ?thesis by simp
qed

text \<open>
  C1, amended. The sum of the widths differs from \<^verbatim>\<open>availableWidth\<close> by no more than
  \<open>(\<bar>availableWidth\<bar> + 200) / 2 ^ 46\<close>, the rounding errors of the subtractions, whichever
  optional columns are planned and whichever floor binds. The sum is the exact sum of the
  widths, which are doubles.
\<close>

theorem generateColumns_widths_near_budget:
  "\<bar>sum_list (map width (generateColumns rt response availableWidth selection selectionToggle
      styles onTagSelected onDatasourceChange)) - availableWidth\<bar>
   \<le> (\<bar>availableWidth\<bar> + 200) / 2 ^ 46"
  by (rule generateColumns_widths_error)

text \<open>
  C2, as stated, makes every width at least 0, the width of the tags column included, for
  every \<^verbatim>\<open>availableWidth\<close>. Nothing clamps the budget that is left: at 100 with no optional
  column the tags column is planned with the width \<open>100 - 300 - 250 = -450\<close>.
\<close>

theorem tags_width_negative_counterexample:
  "col_id (last (generateColumns example_runtime bare_response 100 None None example_styles
      TagSelected None)) = ''column-tags'' \<and>
   width (last (generateColumns example_runtime bare_response 100 None None example_styles
      TagSelected None)) = - 450"
proof -
  have "nameWidth 100 = 300" by (simp add: fl_eval fl_fifth)
  moreover have "fsub (fsub 100 300) 250 = - 450" by (simp add: fl_eval)
  ultimately have "map width (generateColumns example_runtime bare_response 100 None None
      example_styles TagSelected None) = [300, 250, - 450]"
    by (simp add: generateColumns_widths bare_response_def example_fields_def
        responseLocationInfo_def)
  then have "last (map width (generateColumns example_runtime bare_response 100 None None
      example_styles TagSelected None)) = - 450" by simp
  moreover have "generateColumns example_runtime bare_response 100 None None
      example_styles TagSelected None \<noteq> ([] :: action TableColumn list)"
    by (simp add: flat_defs)
  ultimately show ?thesis by (simp add: last_map generateColumns_last)
qed

text \<open>
  C2, amended. Every column planned before the tags column has a width above 0: 30 for
  the selection column, at least 300 for the name column, 250 for the type column, 200 for
  the datasource column and at least 200 for the location column. The tags column is the
  last one; its width is what is left of \<^verbatim>\<open>availableWidth\<close> after the widths of the columns
  before it have been subtracted from it, in order, each subtraction being one on doubles.
  It is not clamped: whenever \<^verbatim>\<open>availableWidth\<close> is at most 549 it is negative.
\<close>

theorem tags_width_is_residual:
  assumes "cols = generateColumns rt response availableWidth selection selectionToggle
      styles onTagSelected onDatasourceChange"
  shows "(\<forall>c \<in> set (butlast cols).
            (col_id c = ''column-checkbox'' \<longrightarrow> width c = 30) \<and>
            (col_id c = ''column-name'' \<longrightarrow> 300 \<le> width c) \<and>
            (col_id c = ''column-type'' \<longrightarrow> width c = 250) \<and>
            (col_id c = ''column-datasource'' \<longrightarrow> width c = 200) \<and>
            (col_id c = ''column-location'' \<longrightarrow> 200 \<le> width c) \<and>
            col_id c \<noteq> ''column-tags'' \<and> 0 < width c) \<and>
         col_id (last cols) = ''column-tags'' \<and>
         width (last cols) = foldl fsub availableWidth (map width (butlast cols)) \<and>
         (availableWidth \<le> 549 \<longrightarrow> width (last cols) < 0)"
  unfolding assms
  using generateColumns_butlast_widths[of rt response availableWidth selection selectionToggle
      styles onTagSelected onDatasourceChange]
    generateColumns_last[of rt response availableWidth selection selectionToggle
      styles onTagSelected onDatasourceChange]
    generateColumns_tags_negative[of availableWidth rt response selection selectionToggle
      styles onTagSelected onDatasourceChange]
  by blast

theorem tags_width_is_residual_witness:
  "map width (butlast (generateColumns example_runtime example_response 2000
      (Some example_selection) (Some Toggled) example_styles TagSelected
      (Some DatasourceChanged))) = [30, 394, 250, 200, 826] \<and>
   width (last (generateColumns example_runtime example_response 2000
      (Some example_selection) (Some Toggled) example_styles TagSelected
      (Some DatasourceChanged))) = foldl fsub 2000 [30, 394, 250, 200, 826] \<and>
   foldl fsub 2000 [30, 394, 250, 200, 826] = 300 \<and>
   width (last (generateColumns example_runtime example_response 549
      (Some example_selection) (Some Toggled) example_styles TagSelected
      (Some DatasourceChanged))) < 0"
proof -
  let ?cols = "generateColumns example_runtime example_response 2000
      (Some example_selection) (Some Toggled) example_styles TagSelected
      (Some DatasourceChanged)"
  have w: "map width (butlast ?cols) = [30, 394, 250, 200, 826]"
    using example_widths by (simp add: map_butlast)
  have f: "foldl fsub 2000 [30, 394, 250, 200, 826] = 300"
    by (simp add: fl_eval)
  from tags_width_is_residual[OF refl, where rt = example_runtime
      and response = example_response and availableWidth = 2000
      and selection = "Some example_selection" and selectionToggle = "Some Toggled"
      and styles = example_styles and onTagSelected = TagSelected
      and onDatasourceChange = "Some DatasourceChanged"]
  have a: "width (last ?cols) = foldl fsub 2000 (map width (butlast ?cols))" by blast
  from tags_width_is_residual[OF refl, where rt = example_runtime
      and response = example_response and availableWidth = 549
      and selection = "Some example_selection" and selectionToggle = "Some Toggled"
      and styles = example_styles and onTagSelected = TagSelected
      and onDatasourceChange = "Some DatasourceChanged"]
  have b: "width (last (generateColumns example_runtime example_response 549
      (Some example_selection) (Some Toggled) example_styles TagSelected
      (Some DatasourceChanged))) < 0" by simp
  from a b w f show ?thesis by simp
qed

subsection \<open>Which columns are planned\<close>

lemma checkboxCell_Some:
  "checkboxCell (Some uf) kf sel toggle styles p =
     Inr (Div (cellProps p) [cellStyle p]
       [Div [] [styles ''checkbox'']
          [Checkbox (Some (values_get uf (row_index p) = None))
             (Some (sel (case kf of Some f \<Rightarrow> values_get f (row_index p)
                            | None \<Rightarrow> Some ''dashboard'') (values_get uf (row_index p)) \<and>
                    values_get uf (row_index p) \<noteq> None))
             [Call (toggle (case kf of Some f \<Rightarrow> values_get f (row_index p)
                            | None \<Rightarrow> Some ''dashboard'') (values_get uf (row_index p)))]]])"
  by (simp add: checkboxCell_def Let_def)

lemma optional_columns_aux:
  "distinct (map col_id (generateColumns rt response availableWidth selection selectionToggle
      styles onTagSelected onDatasourceChange)) \<and>
    (''column-location'' \<in> set (map col_id (generateColumns rt response availableWidth selection selectionToggle
      styles onTagSelected onDatasourceChange)) \<longleftrightarrow> responseLocationInfo response \<noteq> None) \<and>
    (\<forall>c \<in> set (generateColumns rt response availableWidth selection selectionToggle
      styles onTagSelected onDatasourceChange). col_id c = ''column-location'' \<longrightarrow>
       width c = locationWidth (foldl fsub availableWidth
         (map width (takeWhile (\<lambda>c. col_id c \<noteq> ''column-location'') (generateColumns rt response availableWidth selection selectionToggle
      styles onTagSelected onDatasourceChange))))) \<and>
    (''column-datasource'' \<in> set (map col_id (generateColumns rt response availableWidth selection selectionToggle
      styles onTagSelected onDatasourceChange)) \<longleftrightarrow>
       ds_uid (view_fields (view response)) \<noteq> None \<and> onDatasourceChange \<noteq> None) \<and>
    (\<forall>c \<in> set (generateColumns rt response availableWidth selection selectionToggle
      styles onTagSelected onDatasourceChange). col_id c = ''column-datasource'' \<longrightarrow> width c = 200)"
  by (cases selection; cases selectionToggle; cases "ds_uid (view_fields (view response))";
      cases onDatasourceChange; cases "responseLocationInfo response")
    (simp_all add: flat_defs)

text \<open>
  C3. The selection column is absent when the selection predicate or the toggle is not
  supplied. When both are supplied it is the first column, its width is 30, and its cell
  renders a checkbox that is disabled exactly when the row has no uid.
\<close>

theorem selection_column:
  assumes "cols = generateColumns rt response availableWidth selection selectionToggle
      styles onTagSelected onDatasourceChange"
    and "access = view_fields (view response)"
  shows "(selection = None \<or> selectionToggle = None \<longrightarrow>
            ''column-checkbox'' \<notin> set (map col_id cols)) \<and>
         (selection = Some sel \<and> selectionToggle = Some toggle \<longrightarrow>
            col_id (hd cols) = ''column-checkbox'' \<and> width (hd cols) = 30 \<and>
            Cell (hd cols) = CellFn (checkboxCell (uid access) (kind access) sel toggle styles) \<and>
            ''column-checkbox'' \<notin> set (map col_id (tl cols))) \<and>
         (uid access = Some uf \<longrightarrow>
            (\<exists>v h. checkboxCell (uid access) (kind access) sel toggle styles p =
               Inr (Div (cellProps p) [cellStyle p]
                 [Div [] [styles ''checkbox'']
                    [Checkbox (Some (values_get uf (row_index p) = None)) v h]])))"
proof (intro conjI impI)
  assume "selection = None \<or> selectionToggle = None"
  then show "''column-checkbox'' \<notin> set (map col_id cols)"
    unfolding assms generateColumns_ids by auto
next
  assume s: "selection = Some sel \<and> selectionToggle = Some toggle"
  then have i: "map col_id cols = ''column-checkbox'' # map col_id (tl cols)"
       and t: "''column-checkbox'' \<notin> set (map col_id (tl cols))"
    unfolding assms map_tl generateColumns_ids by auto
  from s show "col_id (hd cols) = ''column-checkbox''" "width (hd cols) = 30"
    "Cell (hd cols) = CellFn (checkboxCell (uid access) (kind access) sel toggle styles)"
    unfolding assms by (simp_all add: flat_defs)
  from t show "''column-checkbox'' \<notin> set (map col_id (tl cols))" .
next
  assume "uid access = Some uf"
  then show "\<exists>v h. checkboxCell (uid access) (kind access) sel toggle styles p =
               Inr (Div (cellProps p) [cellStyle p]
                 [Div [] [styles ''checkbox'']
                    [Checkbox (Some (values_get uf (row_index p) = None)) v h]])"
    by (simp add: checkboxCell_Some)
qed

theorem selection_column_witness:
  "col_id (hd (generateColumns example_runtime example_response 2000 (Some example_selection)
      (Some Toggled) example_styles TagSelected (Some DatasourceChanged))) = ''column-checkbox'' \<and>
   width (hd (generateColumns example_runtime example_response 2000 (Some example_selection)
      (Some Toggled) example_styles TagSelected (Some DatasourceChanged))) = 30 \<and>
   ''column-checkbox'' \<notin> set (map col_id (generateColumns example_runtime example_response 2000
      (Some example_selection) None example_styles TagSelected (Some DatasourceChanged))) \<and>
   checkboxCell (uid example_fields) (kind example_fields) example_selection Toggled
     example_styles (example_props 1) =
     Inr (Div [(''role'', ''cell'')] [''cell'']
       [Div [] [''s-checkbox'']
          [Checkbox (Some True) (Some False) [Call (Toggled (Some ''panel'') None)]]])"
proof -
  note t1 = selection_column[OF refl refl, where rt = example_runtime
      and response = example_response and availableWidth = 2000
      and selection = "Some example_selection" and selectionToggle = "Some Toggled"
      and styles = example_styles and onTagSelected = TagSelected
      and onDatasourceChange = "Some DatasourceChanged"
      and sel = example_selection and toggle = Toggled]
  note t2 = selection_column[OF refl refl, where rt = example_runtime
      and response = example_response and availableWidth = 2000
      and selection = "Some example_selection" and selectionToggle = None
      and styles = example_styles and onTagSelected = TagSelected
      and onDatasourceChange = "Some DatasourceChanged"]
  have c: "checkboxCell (uid example_fields) (kind example_fields) example_selection Toggled
     example_styles (example_props 1) =
     Inr (Div [(''role'', ''cell'')] [''cell'']
       [Div [] [''s-checkbox'']
          [Checkbox (Some True) (Some False) [Call (Toggled (Some ''panel'') None)]]])"
    by (simp add: checkboxCell_def example_fields_def example_props_def example_styles_def
        example_selection_def values_get_def Let_def)
  from t1 t2 c show ?thesis by simp
qed

text \<open>
  C5. The location column is planned exactly when the metadata of the result has a
  location-info mapping; its width is the maximum of 200 and the budget left at that step
  minus 300, the budget left being \<^verbatim>\<open>availableWidth\<close> after the widths of the columns
  planned before the location column have been subtracted from it, in order (\<^verbatim>\<open>-=\<close> on
  doubles, as is the subtraction of 300). The datasource column is planned exactly when the
  result has a \<^verbatim>\<open>ds_uid\<close> accessor and a datasource-change callback is supplied; its width
  is 200. No id is planned twice.
\<close>

theorem optional_columns:
  assumes "cols = generateColumns rt response availableWidth selection selectionToggle
      styles onTagSelected onDatasourceChange"
  shows "distinct (map col_id cols) \<and>
    (''column-location'' \<in> set (map col_id cols) \<longleftrightarrow> responseLocationInfo response \<noteq> None) \<and>
    (\<forall>c \<in> set cols. col_id c = ''column-location'' \<longrightarrow>
       width c = max (fsub (foldl fsub availableWidth
         (map width (takeWhile (\<lambda>c. col_id c \<noteq> ''column-location'') cols))) 300) 200) \<and>
    (''column-datasource'' \<in> set (map col_id cols) \<longleftrightarrow>
       ds_uid (view_fields (view response)) \<noteq> None \<and> onDatasourceChange \<noteq> None) \<and>
    (\<forall>c \<in> set cols. col_id c = ''column-datasource'' \<longrightarrow> width c = 200)"
  unfolding assms locationWidth_def[symmetric] by (rule optional_columns_aux)

theorem optional_columns_witness:
  "''column-location'' \<in> set (map col_id (generateColumns example_runtime example_response 2000
      (Some example_selection) (Some Toggled) example_styles TagSelected
      (Some DatasourceChanged))) \<and>
   ''column-datasource'' \<in> set (map col_id (generateColumns example_runtime example_response
      2000 (Some example_selection) (Some Toggled) example_styles TagSelected
      (Some DatasourceChanged))) \<and>
   map width (filter (\<lambda>c. col_id c = ''column-location'')
     (generateColumns example_runtime example_response 2000 (Some example_selection)
        (Some Toggled) example_styles TagSelected (Some DatasourceChanged))) =
     [max (fsub (foldl fsub 2000 [30, 394, 250, 200]) 300) 200] \<and>
   max (fsub (foldl fsub 2000 [30, 394, 250, 200]) 300) 200 = 826 \<and>
   ''column-location'' \<notin> set (map col_id (generateColumns example_runtime bare_response 2000
      (Some example_selection) (Some Toggled) example_styles TagSelected
      (Some DatasourceChanged))) \<and>
   ''column-datasource'' \<notin> set (map col_id (generateColumns example_runtime bare_response
      2000 (Some example_selection) (Some Toggled) example_styles TagSelected
      (Some DatasourceChanged)))"
proof -
  let ?cols = "generateColumns example_runtime example_response 2000 (Some example_selection)
        (Some Toggled) example_styles TagSelected (Some DatasourceChanged)"
  have e: "responseLocationInfo example_response \<noteq> None"
    "ds_uid (view_fields (view example_response)) \<noteq> None"
    by (simp_all add: responseLocationInfo_def example_response_def example_fields_def)
  have b: "responseLocationInfo bare_response = None"
    "ds_uid (view_fields (view bare_response)) = None"
    by (simp_all add: responseLocationInfo_def bare_response_def example_fields_def)
  note t = optional_columns[OF refl, where rt = example_runtime and response = example_response
      and availableWidth = 2000 and selection = "Some example_selection"
      and selectionToggle = "Some Toggled" and styles = example_styles
      and onTagSelected = TagSelected and onDatasourceChange = "Some DatasourceChanged"]
  note t' = optional_columns[OF refl, where rt = example_runtime and response = bare_response
      and availableWidth = 2000 and selection = "Some example_selection"
      and selectionToggle = "Some Toggled" and styles = example_styles
      and onTagSelected = TagSelected and onDatasourceChange = "Some DatasourceChanged"]
  have i: "map col_id ?cols = [''column-checkbox'', ''column-name'', ''column-type'',
      ''column-datasource'', ''column-location'', ''column-tags'']"
    by (rule example_ids)
  have w: "map width ?cols = [30, 394, 250, 200, 826, 300]"
    by (rule example_widths)
  obtain c0 c1 c2 c3 c4 c5 where cs: "?cols = [c0, c1, c2, c3, c4, c5]"
    using i by (auto simp add: map_eq_Cons_conv)
  from i w have v: "col_id c0 = ''column-checkbox''" "col_id c1 = ''column-name''"
    "col_id c2 = ''column-type''" "col_id c3 = ''column-datasource''"
    "col_id c4 = ''column-location''" "col_id c5 = ''column-tags''"
    "width c0 = 30" "width c1 = 394" "width c2 = 250" "width c3 = 200"
    unfolding cs by simp_all
  have m: "max (fsub (foldl fsub 2000 [30, 394, 250, 200]) 300) 200 = 826"
    by (simp add: fl_eval)
  from t have "\<forall>c \<in> set ?cols. col_id c = ''column-location'' \<longrightarrow>
       width c = max (fsub (foldl fsub 2000
         (map width (takeWhile (\<lambda>c. col_id c \<noteq> ''column-location'') ?cols))) 300) 200"
    by blast
  then have "width c4 = max (fsub (foldl fsub 2000 [30, 394, 250, 200]) 300) 200"
    unfolding cs by (simp add: v)
  then have f: "map width (filter (\<lambda>c. col_id c = ''column-location'') ?cols) =
      [max (fsub (foldl fsub 2000 [30, 394, 250, 200]) 300) 200]"
    unfolding cs by (simp add: v)
  from e b t t' f m show ?thesis by simp
qed

subsection \<open>The type column\<close>

text \<open>\<^verbatim>\<open>endsWith\<close> is the suffix test.\<close>

lemma endsWith_iff: "endsWith v s \<longleftrightarrow> (\<exists>p. v = p @ s)"
proof
  assume "endsWith v s"
  then have "v = take (length v - length s) v @ s"
    by (metis append_take_drop_id endsWith_def)
  then show "\<exists>p. v = p @ s" ..
next
  assume "\<exists>p. v = p @ s"
  then show "endsWith v s" by (auto simp: endsWith_def)
qed



lemma get_property_inherited:
  "obj key = None \<Longrightarrow> object_prototype key = Some nm \<Longrightarrow>
   get_property obj key = Some (Inherited nm)"
  by (simp add: get_property_def)


lemma typeAccessor_panel:
  assumes "rowKind kindField i = Some ''panel''"
  shows "\<not> truthy_opt (values_get tf i) \<Longrightarrow>
        typeAccessor rt kindField (Some tf) styles i =
          Inr (typeNode styles ''public/img/icons/unicons/graph-bar.svg'' ''panel'')"
    "values_get tf i = Some ty \<Longrightarrow> ty \<noteq> [] \<Longrightarrow>
      \<not> truthy_opt (panelName (get_property (config_panels rt) ty)) \<Longrightarrow>
        typeAccessor rt kindField (Some tf) styles i =
          Inr (typeNode styles ''public/img/icons/unicons/graph-bar.svg'' ty)"
    "values_get tf i = Some ty \<Longrightarrow> ty \<noteq> [] \<Longrightarrow>
      get_property (config_panels rt) ty = Some info \<Longrightarrow> panelName (Some info) = Some nm \<Longrightarrow>
      nm \<noteq> [] \<Longrightarrow> panelLogo info = Inr logo \<Longrightarrow>
        typeAccessor rt kindField (Some tf) styles i =
          Inr (typeNode styles
            (if truthy_opt logo \<and> endsWith (the logo) ''.svg'' then the logo
             else ''public/img/icons/unicons/graph-bar.svg'') nm)"
  using assms
  by (simp_all add: typeAccessor_def Let_def truthy_def truthy_opt_def)




text \<open>
  That last case, at row 1 of \<open>panels_response\<close>: \<^verbatim>\<open>config.panels['constructor']\<close> is the
  function \<^verbatim>\<open>Object\<close>, which has a \<^verbatim>\<open>name\<close>, and the row is labelled \<^verbatim>\<open>Object\<close>.
\<close>

lemma typeAccessor_inherited_member:
  "plannedAccessor (generateColumns example_runtime panels_response 2000 None None
      example_styles TagSelected None) ''column-type'' 1 =
     [Some (Inr (typeNode example_styles ''public/img/icons/unicons/graph-bar.svg'' ''Object''))]"
proof -
  have q: "rowKind (kind (view_fields (view panels_response))) 1 = Some ''panel''"
    "panel_type (view_fields (view panels_response)) =
       Some [Some '''', Some ''constructor'', Some ''heatmap'', None, None]"
    "values_get [Some '''', Some ''constructor'', Some ''heatmap'', None, None] 1 =
       Some ''constructor''"
    by (simp_all add: rowKind_def panels_response_def values_get_def)
  have g: "get_property (config_panels example_runtime) ''constructor'' =
      Some (Inherited (Some ''Object''))"
    by (simp add: get_property_def example_runtime_def object_prototype_def)
  show ?thesis
    using typeAccessor_panel(3)[OF q(1) q(3) _ g, where nm = "''Object''" and logo = None
        and styles = example_styles]
    by (simp add: plannedAccessor_type q(2) panelName_def panelLogo_def truthy_opt_def)
qed

subsection \<open>The location column\<close>

text \<open>
  What \<^verbatim>\<open>split\<close> returns: the one non-empty list of separator-free segments that joins
  back to the string.
\<close>

lemma str_split_nonempty: "str_split c s \<noteq> []"
  by (induction s) (auto split: list.splits)

lemma str_join_Cons_Cons: "str_join c ((x # seg) # segs) = x # str_join c (seg # segs)"
  by (cases segs) simp_all

lemma str_join_split: "str_join c (str_split c s) = s"
proof (induction s)
  case Nil
  show ?case by simp
next
  case (Cons x xs)
  show ?case
  proof (cases "x = c")
    case True
    with Cons show ?thesis
      by (cases "str_split c xs") (simp_all add: str_split_nonempty)
  next
    case False
    with Cons show ?thesis
      by (cases "str_split c xs") (simp_all add: str_split_nonempty str_join_Cons_Cons)
  qed
qed

lemma str_split_no_sep: "seg \<in> set (str_split c s) \<Longrightarrow> c \<notin> set seg"
  by (induction s arbitrary: seg) (auto split: if_splits list.splits)

lemma str_split_plain: "c \<notin> set seg \<Longrightarrow> str_split c seg = [seg]"
  by (induction seg) auto

lemma str_split_append: "c \<notin> set seg \<Longrightarrow> str_split c (seg @ c # r) = seg # str_split c r"
  by (induction seg) auto

lemma str_split_join:
  "segs \<noteq> [] \<Longrightarrow> \<forall>seg \<in> set segs. c \<notin> set seg \<Longrightarrow> str_split c (str_join c segs) = segs"
  by (induction c segs rule: str_join.induct) (simp_all add: str_split_plain str_split_append)

lemma getIconForKind_cases:
  "getIconForKind (Some ''dashboard'') = ''apps''"
  "getIconForKind (Some ''folder'') = ''folder''"
  "v \<noteq> Some ''dashboard'' \<Longrightarrow> v \<noteq> Some ''folder'' \<Longrightarrow> getIconForKind v = ''question-circle''"
  by (simp_all add: getIconForKind_def)

text \<open>
  One segment: a link for an own key of \<^verbatim>\<open>locationInfo\<close>, a plain span for a key that is
  neither an own key nor the name of an inherited member, and a link again for the name
  of an inherited member that is not an own key.
\<close>

lemma locationItem_cases:
  "locInfo seg = Some info \<Longrightarrow>
     locationItem locInfo styles seg =
       Anchor (Some (KeyString seg)) [] (Some (info_url info)) [styles ''locationItem'']
         [Icon (getIconForKind (Some (info_kind info))), Text (Some '' ''),
          Text (Some (info_name info))]"
  "locInfo seg = None \<Longrightarrow> object_prototype seg = None \<Longrightarrow>
     locationItem locInfo styles seg = Span (Some (KeyString seg)) [] None [Text (Some seg)]"
  "locInfo seg = None \<Longrightarrow> object_prototype seg = Some nm \<Longrightarrow>
     locationItem locInfo styles seg =
       Anchor (Some (KeyString seg)) [] None [styles ''locationItem'']
         [Icon ''question-circle'', Text (Some '' ''), Text nm]"
  by (simp_all add: locationItem_def get_property_def getIconForKind_def)

text \<open>
  The cell of the planned location column splits the location of the row on \<^verbatim>\<open>/\<close> (the
  empty string when there is no accessor or no value, which gives the single empty
  segment) and renders the segments in path order.
\<close>

lemma locationCell_segments:
  assumes "cols = generateColumns rt response availableWidth selection selectionToggle
      styles onTagSelected onDatasourceChange"
    and "responseLocationInfo response = Some locInfo"
    and "loc = (case location (view_fields (view response)) of
                    None \<Rightarrow> []
                  | Some lf \<Rightarrow> (case values_get lf (row_index p) of None \<Rightarrow> [] | Some s \<Rightarrow> s))"
    and "segs = str_split CHR ''/'' loc"
  shows "plannedCell cols ''column-location'' p =
           [Some (Inr (Div (cellProps p) (cx [cellStyle p, css ''padding-right: 10px;''])
             (map (locationItem locInfo styles) segs)))]"
    and "segs \<noteq> []" and "str_join CHR ''/'' segs = loc"
    and "\<forall>seg \<in> set segs. CHR ''/'' \<notin> set seg"
    and "loc = [] \<longrightarrow> segs = [[]]"
proof -
  show "plannedCell cols ''column-location'' p =
           [Some (Inr (Div (cellProps p) (cx [cellStyle p, css ''padding-right: 10px;''])
             (map (locationItem locInfo styles) segs)))]"
    unfolding assms(1) plannedCell_location assms(2) assms(3) assms(4)
    by (simp add: locationCell_def Let_def)
  show "segs \<noteq> []" "str_join CHR ''/'' segs = loc"
    "\<forall>seg \<in> set segs. CHR ''/'' \<notin> set seg" "loc = [] \<longrightarrow> segs = [[]]"
    unfolding assms(4) by (auto simp add: str_split_nonempty str_join_split str_split_no_sep)
qed

text \<open>
  C6 has a segment that is not in \<^verbatim>\<open>locationInfo\<close> rendered as the segment itself, in plain
  unlinked text. \<^verbatim>\<open>meta.locationInfo[p]\<close> also finds what every object inherits: for a
  dashboard in a folder whose uid is \<^verbatim>\<open>constructor\<close>, with a \<^verbatim>\<open>locationInfo\<close> that has no entry
  at all, the cell of the planned location column renders a link with no \<^verbatim>\<open>href\<close>, labelled
  \<^verbatim>\<open>Object\<close>, with the \<^verbatim>\<open>question-circle\<close> icon, where the span with the text \<^verbatim>\<open>constructor\<close> is
  expected.
\<close>

theorem location_inherited_member:
  "responseLocationInfo orphan_response = Some Map.empty \<and>
   plannedCell (generateColumns example_runtime orphan_response 2000 None None example_styles
      TagSelected None) ''column-location'' (example_props 0) =
     [Some (Inr (Div [(''role'', ''cell'')] [''cell'', ''css{padding-right: 10px;}'']
        [Anchor (Some (KeyString ''constructor'')) [] None [''s-locationItem'']
           [Icon ''question-circle'', Text (Some '' ''), Text (Some ''Object'')]]))] \<and>
   (Anchor (Some (KeyString ''constructor'')) [] None [''s-locationItem'']
           [Icon ''question-circle'', Text (Some '' ''), Text (Some ''Object'')] :: action node)
     \<noteq> Span (Some (KeyString ''constructor'')) [] None [Text (Some ''constructor'')]"
proof -
  have r: "responseLocationInfo orphan_response = Some Map.empty"
    by (simp add: responseLocationInfo_def orphan_response_def)
  have l: "(case location (view_fields (view orphan_response)) of
              None \<Rightarrow> []
            | Some lf \<Rightarrow> (case values_get lf (row_index (example_props 0)) of
                  None \<Rightarrow> [] | Some s \<Rightarrow> s)) = ''constructor''"
    by (simp add: orphan_response_def example_fields_def example_props_def values_get_def)
  have s: "str_split CHR ''/'' ''constructor'' = [''constructor'']"
    by simp
  have i: "locationItem Map.empty example_styles ''constructor'' =
      (Anchor (Some (KeyString ''constructor'')) [] None [''s-locationItem'']
         [Icon ''question-circle'', Text (Some '' ''), Text (Some ''Object'')] :: action node)"
    by (simp add: locationItem_cases(3)[where nm = "Some ''Object''"] object_prototype_def
        example_styles_def)
  have c: "cx [cellStyle (example_props 0), css ''padding-right: 10px;''] =
      [''cell'', ''css{padding-right: 10px;}'']"
    "cellProps (example_props 0) = [(''role'', ''cell'')]"
    by (simp_all add: cx_def css_def truthy_def example_props_def)
  have "plannedCell (generateColumns example_runtime orphan_response 2000 None None
      example_styles TagSelected None) ''column-location'' (example_props 0) =
     [Some (Inr (Div [(''role'', ''cell'')] [''cell'', ''css{padding-right: 10px;}'']
        [Anchor (Some (KeyString ''constructor'')) [] None [''s-locationItem'']
           [Icon ''question-circle'', Text (Some '' ''), Text (Some ''Object'')]]))]"
    unfolding locationCell_segments(1)[OF refl r refl refl] l s
    by (simp only: list.map i c)
  with r show ?thesis by simp
qed

subsection \<open>The datasource column\<close>

lemma dataSourceItem_chip:
  "getInstanceSettings rt v = Some s \<Longrightarrow> settings_small_logo (Some s) = Some ic \<Longrightarrow> ic \<noteq> [] \<Longrightarrow>
   dataSourceItem rt iconClass ivc change (i, v) =
     Span (Some (KeyIndex i)) []
       (Some [StopPropagation, PreventDefault, Call (change (Some (settings_uid s)))])
       [Img ic 14 14 (settings_type s) iconClass, Text (Some (settings_name s))]"
  by (simp add: dataSourceItem_def Let_def truthy_def)

lemma dataSourceItem_invalid:
  "\<not> truthy_opt (settings_small_logo (getInstanceSettings rt v)) \<Longrightarrow>
   dataSourceItem rt iconClass ivc change (i, v) =
     Span (Some (KeyIndex i)) [ivc] None [Text (Some v)]"
  by (auto simp add: dataSourceItem_def Let_def truthy_opt_def settings_small_logo_def
      split: option.splits)

lemma dataSourceCell_total:
  "\<exists>n. dataSourceCell rt fld iconClass dc ivc change p = Inr n"
  by (cases "values_get fld (row_index p)") (simp_all add: dataSourceCell_def)

text \<open>
  C7. The datasource cell renders nothing when the datasource list of the row is absent
  or empty. Otherwise it renders one item per identifier, in order: when the registry
  returns settings with a non-empty small logo, a chip with the logo and the name whose
  click handler calls the datasource-change callback with the uid of the settings; in
  every other case (no settings, no logo) the identifier itself in the invalid-datasource
  class. The cell never raises.
\<close>

theorem dataSourceCell_rendering:
  assumes "dslist = values_get fld (row_index p)"
  shows "(dslist = None \<or> dslist = Some [] \<longrightarrow>
            dataSourceCell rt fld iconClass dc ivc change p = Inr Null) \<and>
         (dslist = Some ids \<and> ids \<noteq> [] \<longrightarrow>
            dataSourceCell rt fld iconClass dc ivc change p =
              Inr (Div (cellProps p) (cx [cellStyle p, dc])
                (map (dataSourceItem rt iconClass ivc change) (enumerate 0 ids)))) \<and>
         (getInstanceSettings rt v = Some s \<and> settings_small_logo (Some s) = Some ic \<and>
          ic \<noteq> [] \<longrightarrow>
            dataSourceItem rt iconClass ivc change (i, v) =
              Span (Some (KeyIndex i)) []
                (Some [StopPropagation, PreventDefault, Call (change (Some (settings_uid s)))])
                [Img ic 14 14 (settings_type s) iconClass, Text (Some (settings_name s))]) \<and>
         (\<not> truthy_opt (settings_small_logo (getInstanceSettings rt v)) \<longrightarrow>
            dataSourceItem rt iconClass ivc change (i, v) =
              Span (Some (KeyIndex i)) [ivc] None [Text (Some v)]) \<and>
         (\<exists>n. dataSourceCell rt fld iconClass dc ivc change p = Inr n) \<and>
         Cell (makeDataSourceColumn rt fld w iconClass dc ivc change) =
           CellFn (dataSourceCell rt fld iconClass dc ivc change)"
proof -
  have "dslist = None \<or> dslist = Some [] \<longrightarrow>
      dataSourceCell rt fld iconClass dc ivc change p = Inr Null"
    "dslist = Some ids \<and> ids \<noteq> [] \<longrightarrow>
      dataSourceCell rt fld iconClass dc ivc change p =
        Inr (Div (cellProps p) (cx [cellStyle p, dc])
          (map (dataSourceItem rt iconClass ivc change) (enumerate 0 ids)))"
    unfolding assms by (auto simp add: dataSourceCell_def)
  then show ?thesis
    using dataSourceCell_total[of rt fld iconClass dc ivc change p]
    by (simp add: dataSourceItem_chip dataSourceItem_invalid)
qed

theorem dataSourceCell_rendering_witness:
  "dataSourceCell example_runtime (the (ds_uid example_fields)) ''icon'' ''item'' ''invalid''
     DatasourceChanged (example_props 0) =
     Inr (Div [(''role'', ''cell'')] [''cell'', ''item'']
       [Span (Some (KeyIndex 0)) []
          (Some [StopPropagation, PreventDefault, Call (DatasourceChanged (Some ''uid-1''))])
          [Img ''img/prometheus.svg'' 14 14 ''prometheus'' ''icon'', Text (Some ''Prometheus'')],
        Span (Some (KeyIndex 1)) [''invalid''] None [Text (Some ''ds2'')]]) \<and>
   dataSourceCell example_runtime (the (ds_uid example_fields)) ''icon'' ''item'' ''invalid''
     DatasourceChanged (example_props 1) = Inr Null"
proof -
  have v: "values_get (the (ds_uid example_fields)) (row_index (example_props 0)) =
      Some [''ds1'', ''ds2'']"
    "values_get (the (ds_uid example_fields)) (row_index (example_props 1)) = None"
    by (simp_all add: example_fields_def example_props_def values_get_def)
  have e: "enumerate 0 [''ds1'', ''ds2''] = [(0, ''ds1''), (1, ''ds2'')]"
    by simp
  have g: "getInstanceSettings example_runtime ''ds1'' =
      Some \<lparr> settings_uid = ''uid-1'', settings_type = ''prometheus'',
             settings_name = ''Prometheus'',
             settings_meta = Some
               \<lparr> plugin_name = Some ''Prometheus'',
                 plugin_info = Some \<lparr> logos = Some \<lparr> small = Some ''img/prometheus.svg'' \<rparr> \<rparr> \<rparr> \<rparr>"
    "getInstanceSettings example_runtime ''ds2'' = None"
    by (simp_all add: example_runtime_def)
  have l: "settings_small_logo (Some \<lparr> settings_uid = ''uid-1'', settings_type = ''prometheus'',
             settings_name = ''Prometheus'',
             settings_meta = Some
               \<lparr> plugin_name = Some ''Prometheus'',
                 plugin_info = Some \<lparr> logos = Some \<lparr> small = Some ''img/prometheus.svg'' \<rparr> \<rparr> \<rparr> \<rparr>)
      = Some ''img/prometheus.svg''"
    "\<not> truthy_opt (settings_small_logo None)"
    by (simp_all add: settings_small_logo_def truthy_opt_def)
  have c: "cx [cellStyle (example_props 0), ''item''] = [''cell'', ''item'']"
    "cellProps (example_props 0) = [(''role'', ''cell'')]"
    by (simp_all add: cx_def truthy_def example_props_def)
  note t = dataSourceCell_rendering[OF refl, where rt = example_runtime
      and fld = "the (ds_uid example_fields)" and iconClass = "''icon''" and dc = "''item''"
      and ivc = "''invalid''" and change = DatasourceChanged]
  note t0 = t[where p = "example_props 0" and ids = "[''ds1'', ''ds2'']" and v = "''ds1''"
      and i = 0 and ic = "''img/prometheus.svg''"
      and s = "\<lparr> settings_uid = ''uid-1'', settings_type = ''prometheus'',
             settings_name = ''Prometheus'',
             settings_meta = Some
               \<lparr> plugin_name = Some ''Prometheus'',
                 plugin_info = Some \<lparr> logos = Some \<lparr> small = Some ''img/prometheus.svg'' \<rparr> \<rparr> \<rparr> \<rparr>"]
  note t0' = t[where p = "example_props 0" and ids = "[''ds1'', ''ds2'']" and v = "''ds2''"
      and i = 1]
  note t1 = t[where p = "example_props 1" and ids = "[]" and v = "''ds2''" and i = 1]
  from t0 t0' t1 show ?thesis
    unfolding v e g by (simp add: c l)
qed

subsection \<open>Event handlers\<close>

text \<open>
  In every plan with a selection column, the change handler of the checkbox of a row is
  the call of \<^verbatim>\<open>selectionToggle\<close> and nothing else; every handler in a cell of the datasource
  column calls \<^verbatim>\<open>stopPropagation\<close> and \<^verbatim>\<open>preventDefault\<close> first.
\<close>

lemma checkbox_handlers:
  assumes "selection = Some sel" and "selectionToggle = Some toggle"
    and "uid (view_fields (view response)) = Some uf"
  shows "plannedHandlers (generateColumns rt response availableWidth selection selectionToggle
      styles onTagSelected onDatasourceChange) ''column-checkbox'' p =
     [[Call (toggle (case kind (view_fields (view response)) of
                       Some f \<Rightarrow> values_get f (row_index p)
                     | None \<Rightarrow> Some ''dashboard'') (values_get uf (row_index p)))]]"
    and "\<not> suppresses_before_call [Call (toggle k u)]"
  by (simp_all add: plannedHandlers_def plannedCell_checkbox assms checkboxCell_Some
      suppresses_before_call_def)

lemma handlers_dataSourceItem:
  "h \<in> set (handlers (dataSourceItem rt iconClass ivc change iv)) \<Longrightarrow>
   \<exists>u. h = [StopPropagation, PreventDefault, Call (change u)]"
  by (auto simp add: dataSourceItem_def Let_def split: option.splits if_splits)

lemma handlers_dataSourceCell:
  assumes "dataSourceCell rt fld iconClass dc ivc change p = Inr n"
    and "h \<in> set (handlers n)"
  shows "\<exists>u. h = [StopPropagation, PreventDefault, Call (change u)]"
proof (cases "values_get fld (row_index p)")
  case None
  with assms show ?thesis by (simp add: dataSourceCell_def)
next
  case (Some ids)
  with assms show ?thesis
    by (cases "ids = []") (auto simp add: dataSourceCell_def dest: handlers_dataSourceItem)
qed

lemma datasource_handlers:
  assumes "h \<in> set (plannedHandlers (generateColumns rt response availableWidth selection
      selectionToggle styles onTagSelected onDatasourceChange) ''column-datasource'' p)"
  shows "suppresses_before_call h"
proof -
  from assms obtain dsf change n where
    n: "dataSourceCell rt dsf (styles ''typeIcon'') (styles ''datasourceItem'')
          (styles ''invalidDatasourceItem'') change p = Inr n" and h: "h \<in> set (handlers n)"
    by (auto simp add: plannedHandlers_def plannedCell_datasource
        split: option.splits sum.splits dest: sym)
  from handlers_dataSourceCell[OF n h]
  obtain u where "h = [StopPropagation, PreventDefault, Call (change u)]" ..
  then show ?thesis by (simp add: suppresses_before_call_def)
qed

text \<open>
  C8 has every invocation of a caller-supplied callback come after \<^verbatim>\<open>stopPropagation\<close> and
  \<^verbatim>\<open>preventDefault\<close>. In the plan for the example result set, the change handler of the
  selection checkbox of row 0 calls \<^verbatim>\<open>selectionToggle\<close> and nothing else, while the click
  handler of the datasource chip of the same row, and the change handler of the checkbox
  in the header of the selection column, call both before anything else.
\<close>

theorem selection_toggle_unsuppressed:
  "plannedCell (generateColumns example_runtime example_response 2000 (Some example_selection)
      (Some Toggled) example_styles TagSelected (Some DatasourceChanged))
      ''column-checkbox'' (example_props 0) =
     [Some (Inr (Div [(''role'', ''cell'')] [''cell'']
        [Div [] [''s-checkbox'']
           [Checkbox (Some False) (Some True)
              [Call (Toggled (Some ''dashboard'') (Some ''u1''))]]]))] \<and>
   plannedHandlers (generateColumns example_runtime example_response 2000
      (Some example_selection) (Some Toggled) example_styles TagSelected
      (Some DatasourceChanged)) ''column-checkbox'' (example_props 0) =
     [[Call (Toggled (Some ''dashboard'') (Some ''u1''))]] \<and>
   \<not> suppresses_before_call [Call (Toggled (Some ''dashboard'') (Some ''u1''))] \<and>
   plannedCell (generateColumns example_runtime example_response 2000 (Some example_selection)
      (Some Toggled) example_styles TagSelected (Some DatasourceChanged))
      ''column-datasource'' (example_props 0) =
     [Some (Inr (Div [(''role'', ''cell'')] [''cell'', ''s-datasourceItem'']
        [Span (Some (KeyIndex 0)) []
           (Some [StopPropagation, PreventDefault, Call (DatasourceChanged (Some ''uid-1''))])
           [Img ''img/prometheus.svg'' 14 14 ''prometheus'' ''s-typeIcon'',
            Text (Some ''Prometheus'')],
         Span (Some (KeyIndex 1)) [''s-invalidDatasourceItem''] None [Text (Some ''ds2'')]]))] \<and>
   plannedHandlers (generateColumns example_runtime example_response 2000
      (Some example_selection) (Some Toggled) example_styles TagSelected
      (Some DatasourceChanged)) ''column-datasource'' (example_props 0) =
     [[StopPropagation, PreventDefault, Call (DatasourceChanged (Some ''uid-1''))]] \<and>
   suppresses_before_call
     [StopPropagation, PreventDefault, Call (DatasourceChanged (Some ''uid-1''))] \<and>
   Header (hd (generateColumns example_runtime example_response 2000 (Some example_selection)
      (Some Toggled) example_styles TagSelected (Some DatasourceChanged))) =
     HeaderFn (Div [] [''s-checkboxHeader'']
       [Checkbox None None [StopPropagation, PreventDefault, Alert ''SELECT ALL!!!'']])"
proof -
  have f: "uid (view_fields (view example_response)) = Some [Some ''u1'', None]"
    "kind (view_fields (view example_response)) = Some [Some ''dashboard'', Some ''panel'']"
    "ds_uid (view_fields (view example_response)) = Some [Some [''ds1'', ''ds2''], None]"
    by (simp_all add: example_response_def example_fields_def)
  have cb: "checkboxCell (Some [Some ''u1'', None]) (Some [Some ''dashboard'', Some ''panel''])
      example_selection Toggled example_styles (example_props 0) =
     Inr (Div [(''role'', ''cell'')] [''cell'']
        [Div [] [''s-checkbox'']
           [Checkbox (Some False) (Some True)
              [Call (Toggled (Some ''dashboard'') (Some ''u1''))]]])"
    by (simp add: checkboxCell_def example_props_def example_styles_def
        example_selection_def values_get_def Let_def)
  have g: "getInstanceSettings example_runtime ''ds1'' =
      Some \<lparr> settings_uid = ''uid-1'', settings_type = ''prometheus'',
             settings_name = ''Prometheus'',
             settings_meta = Some
               \<lparr> plugin_name = Some ''Prometheus'',
                 plugin_info = Some \<lparr> logos = Some \<lparr> small = Some ''img/prometheus.svg'' \<rparr> \<rparr> \<rparr> \<rparr>"
    "getInstanceSettings example_runtime ''ds2'' = None"
    by (simp_all add: example_runtime_def)
  have i0: "dataSourceItem example_runtime ''s-typeIcon'' ''s-invalidDatasourceItem''
      DatasourceChanged (0, ''ds1'') =
      Span (Some (KeyIndex 0)) []
           (Some [StopPropagation, PreventDefault, Call (DatasourceChanged (Some ''uid-1''))])
           [Img ''img/prometheus.svg'' 14 14 ''prometheus'' ''s-typeIcon'',
            Text (Some ''Prometheus'')]"
    by (simp add: dataSourceItem_def Let_def g settings_small_logo_def truthy_def)
  have i1: "dataSourceItem example_runtime ''s-typeIcon'' ''s-invalidDatasourceItem''
      DatasourceChanged (Suc 0, ''ds2'') =
      Span (Some (KeyIndex 1)) [''s-invalidDatasourceItem''] None [Text (Some ''ds2'')]"
    by (simp add: dataSourceItem_def Let_def g settings_small_logo_def)
  have ds: "dataSourceCell example_runtime [Some [''ds1'', ''ds2''], None]
      (example_styles ''typeIcon'') (example_styles ''datasourceItem'')
      (example_styles ''invalidDatasourceItem'') DatasourceChanged (example_props 0) =
     Inr (Div [(''role'', ''cell'')] [''cell'', ''s-datasourceItem'']
        [Span (Some (KeyIndex 0)) []
           (Some [StopPropagation, PreventDefault, Call (DatasourceChanged (Some ''uid-1''))])
           [Img ''img/prometheus.svg'' 14 14 ''prometheus'' ''s-typeIcon'',
            Text (Some ''Prometheus'')],
         Span (Some (KeyIndex 1)) [''s-invalidDatasourceItem''] None [Text (Some ''ds2'')]])"
    by (simp add: dataSourceCell_def example_props_def example_styles_def values_get_def
        cx_def truthy_def i0 i1)
  have h: "Header (hd (generateColumns example_runtime example_response 2000
      (Some example_selection) (Some Toggled) example_styles TagSelected
      (Some DatasourceChanged))) =
     HeaderFn (Div [] [''s-checkboxHeader'']
       [Checkbox None None [StopPropagation, PreventDefault, Alert ''SELECT ALL!!!'']])"
    by (simp add: flat_defs checkboxColumn_def example_styles_def)
  show ?thesis
    by (simp add: plannedHandlers_def plannedCell_checkbox plannedCell_datasource f cb ds h
        suppresses_before_call_def)
qed

subsection \<open>Missing fields\<close>














end
